theory Spec2Isabelle
  imports Main "HOL-Library.Word"
begin

section \<open>JavaScript values\<close>

text \<open>
  A JavaScript string is a sequence of UTF-16 code units. \<open>js\<close> turns an ASCII literal
  of the source into such a sequence.
\<close>

type_synonym jsstring = "16 word list"

definition js :: "string \<Rightarrow> jsstring" where
  "js s = map of_char s"

text \<open>
  The values the script handles: what \<open>JSON.parse\<close> can return, plus \<open>undefined\<close>
  (a missing property). A number is kept as the 64 bits of its IEEE double; an object is
  the list of its own properties, and where a list names a key twice its first entry is
  the property.
\<close>

datatype jsval =
    JUndefined
  | JNull
  | JBool bool
  | JNum "64 word"
  | JStr jsstring
  | JArr "jsval list"
  | JObj "(jsstring \<times> jsval) list"

text \<open>A thrown value, with its \<open>name\<close> and its \<open>message\<close>.\<close>

datatype js_error = JsError (error_name: jsstring) (error_message: jsstring)

text \<open>How a call ends: it returns, or an exception leaves it.\<close>

datatype completion = Returned | Threw js_error

section \<open>The platform\<close>

text \<open>
  Library and browser functions the script calls but does not define. They are parameters
  of the model:
  \<^item> \<open>JSON_parse\<close>, \<open>JSON_stringify\<close>: the JSON codec;
  \<^item> \<open>marked_parse\<close>: the Markdown renderer \<open>marked.parse\<close>, which may throw;
  \<^item> \<open>setItem_error\<close>: the exception \<open>localStorage.setItem\<close> raises for a store, key
    and value (a full quota, a disabled store), or \<open>None\<close> when the write goes through;
  \<^item> \<open>type_error\<close>: the \<open>TypeError\<close> the engine raises when member \<open>m\<close> of value
    \<open>v\<close> cannot be read or called (the wording is the engine's);
  \<^item> \<open>gt_one\<close>: the language's comparison \<open>v > 1\<close> on an arbitrary value;
  \<^item> \<open>to_string\<close>: the string conversion of a number, an array or an object, which
    throws for an object that cannot be converted.
\<close>

record platform =
  JSON_parse :: "jsstring \<Rightarrow> js_error + jsval"
  JSON_stringify :: "jsval \<Rightarrow> jsstring"
  marked_parse :: "jsval \<Rightarrow> js_error + jsstring"
  setItem_error :: "(jsstring \<rightharpoonup> jsstring) \<Rightarrow> jsstring \<Rightarrow> jsstring \<Rightarrow> js_error option"
  type_error :: "jsval \<Rightarrow> jsstring \<Rightarrow> js_error"
  gt_one :: "jsval \<Rightarrow> bool"
  to_string :: "jsval \<Rightarrow> js_error + jsstring"

text \<open>
  The outcome of one \<open>fetch\<close> round trip, an input of every send: the promise is rejected
  (transport failure), or a response arrives with its status and with what
  \<open>response.json()\<close> yields, a parsed body or a parse error.
\<close>

datatype fetch_result =
    Rejected js_error
  | Response (status: nat) (json: "js_error + jsval")

text \<open>\<open>response.ok\<close> of the Fetch API: the status is in the range 200 to 299.\<close>

fun ok :: "fetch_result \<Rightarrow> bool" where
  "ok (Response st _) = (200 \<le> st \<and> st \<le> 299)"
| "ok (Rejected _) = False"

section \<open>Language primitives\<close>

text \<open>
  \<open>String.prototype.trim\<close> strips the WhiteSpace and LineTerminator code points of
  ECMAScript from both ends.
\<close>

definition is_js_whitespace :: "16 word \<Rightarrow> bool" where
  "is_js_whitespace c \<longleftrightarrow>
     c = 0x0009 \<or> c = 0x000A \<or> c = 0x000B \<or> c = 0x000C \<or> c = 0x000D \<or> c = 0x0020 \<or>
     c = 0x00A0 \<or> c = 0x1680 \<or> (0x2000 \<le> c \<and> c \<le> 0x200A) \<or> c = 0x2028 \<or>
     c = 0x2029 \<or> c = 0x202F \<or> c = 0x205F \<or> c = 0x3000 \<or> c = 0xFEFF"

definition trim :: "jsstring \<Rightarrow> jsstring" where
  "trim s = rev (dropWhile is_js_whitespace (rev (dropWhile is_js_whitespace s)))"

text \<open>The decimal text of a non-negative integer, as a template literal prints it.\<close>

function dec :: "nat \<Rightarrow> jsstring" where
  "dec n = (if n < 10 then [of_nat (48 + n)] else dec (n div 10) @ [of_nat (48 + n mod 10)])"
  by pat_completeness auto
termination
  by (relation "measure id") auto

declare dec.simps [simp del]

text \<open>
  Reading a property that is no built-in member (\<open>role\<close>, \<open>content\<close>, \<open>reply\<close>):
  \<open>null\<close> and \<open>undefined\<close> throw, an object yields its own property or \<open>undefined\<close>,
  every other value yields \<open>undefined\<close>.
\<close>

fun js_get :: "platform \<Rightarrow> jsval \<Rightarrow> jsstring \<Rightarrow> js_error + jsval" where
  "js_get P JUndefined k = Inl (type_error P JUndefined k)"
| "js_get P JNull k = Inl (type_error P JNull k)"
| "js_get P (JObj kvs) k = Inr (case map_of kvs k of Some v \<Rightarrow> v | None \<Rightarrow> JUndefined)"
| "js_get P v k = Inr JUndefined"

text \<open>
  A value inside a template literal: strings, booleans, \<open>null\<close> and \<open>undefined\<close>
  have a fixed text; the other conversions are the platform's.
\<close>

definition interpolate :: "platform \<Rightarrow> jsval \<Rightarrow> js_error + jsstring" where
  "interpolate P v =
     (case v of
        JStr s \<Rightarrow> Inr s
      | JUndefined \<Rightarrow> Inr (js ''undefined'')
      | JNull \<Rightarrow> Inr (js ''null'')
      | JBool b \<Rightarrow> Inr (if b then js ''true'' else js ''false'')
      | _ \<Rightarrow> to_string P v)"

text \<open>
  \<open>v.slice(0, -1)\<close>: arrays and strings drop their last element; no other value has a
  callable \<open>slice\<close>.
\<close>

fun slice_0_m1 :: "platform \<Rightarrow> jsval \<Rightarrow> js_error + jsval" where
  "slice_0_m1 P (JArr xs) = Inr (JArr (butlast xs))"
| "slice_0_m1 P (JStr s) = Inr (JStr (butlast s))"
| "slice_0_m1 P v = Inl (type_error P v (js ''slice''))"

text \<open>
  \<open>v.length > 1\<close>: the length of an array or a string; \<open>null\<close> throws; an object
  compares its own \<open>length\<close> property, if any; booleans and numbers have none.
\<close>

fun length_gt_1 :: "platform \<Rightarrow> jsval \<Rightarrow> js_error + bool" where
  "length_gt_1 P (JArr xs) = Inr (1 < length xs)"
| "length_gt_1 P (JStr s) = Inr (1 < length s)"
| "length_gt_1 P JNull = Inl (type_error P JNull (js ''length''))"
| "length_gt_1 P JUndefined = Inl (type_error P JUndefined (js ''length''))"
| "length_gt_1 P (JObj kvs) =
     Inr (case map_of kvs (js ''length'') of Some v \<Rightarrow> gt_one P v | None \<Rightarrow> False)"
| "length_gt_1 P v = Inr False"

section \<open>State\<close>

text \<open>\<open>currentAction\<close> only ever holds one of four string literals.\<close>

datatype action = Chat | Debug | Explain | Generate

record request =
  url :: jsstring
  body :: jsstring

text \<open>
  A child of \<open>chatMessages\<close>: a rendered message (its class name, whether it carries
  the user avatar, the HTML of its content) or the typing indicator.
\<close>

datatype dom_node = MessageDiv jsstring bool jsstring | TypingIndicator

text \<open>
  The module's variables (\<open>conversationHistory\<close>, \<open>currentAction\<close>,
  \<open>isSidebarOpen\<close>), the parts of the page it reads and writes (\<open>chatInput.value\<close>,
  the children of \<open>chatMessages\<close>, the sidebar's classes, \<open>window.innerWidth\<close>),
  \<open>localStorage\<close>, and three logs of its effects: the requests given to \<open>fetch\<close>, the
  errors given to \<open>console.error\<close> and the number of \<open>confirm\<close> dialogs shown.
\<close>

record state =
  conversationHistory :: jsval
  currentAction :: action
  isSidebarOpen :: bool
  chatInput :: jsstring
  chatMessages :: "dom_node list"
  sidebar_open :: bool
  sidebar_collapsed :: bool
  innerWidth :: nat
  localStorage :: "jsstring \<rightharpoonup> jsstring"
  requests :: "request list"
  console :: "js_error list"
  confirms :: nat

definition API_BASE :: jsstring where
  "API_BASE = js ''http://127.0.0.1:8000''"

definition storage_key :: jsstring where
  "storage_key = js ''verilogai_conversation''"

text \<open>The page as the script finds it when it is loaded, over a given store and width.\<close>

definition initial_state :: "(jsstring \<rightharpoonup> jsstring) \<Rightarrow> nat \<Rightarrow> state" where
  "initial_state store width =
     \<lparr> conversationHistory = JArr [], currentAction = Chat, isSidebarOpen = False,
       chatInput = [], chatMessages = [], sidebar_open = False, sidebar_collapsed = False,
       innerWidth = width, localStorage = store, requests = [], console = [],
       confirms = 0 \<rparr>"

section \<open>Sidebar\<close>

definition toggleSidebar :: "state \<Rightarrow> state" where
  "toggleSidebar s =
     (if innerWidth s \<le> 768
      then s\<lparr>sidebar_open := \<not> sidebar_open s, isSidebarOpen := \<not> isSidebarOpen s\<rparr>
      else s)"

definition closeSidebar :: "state \<Rightarrow> state" where
  "closeSidebar s =
     (if innerWidth s \<le> 768 then s\<lparr>sidebar_open := False, isSidebarOpen := False\<rparr> else s)"

definition checkMobileView :: "state \<Rightarrow> state" where
  "checkMobileView s =
     (if innerWidth s \<le> 768
      then s\<lparr>sidebar_collapsed := True, isSidebarOpen := False\<rparr>
      else s\<lparr>sidebar_collapsed := False, isSidebarOpen := True\<rparr>)"

section \<open>Rendering\<close>

text \<open>
  One pass of the \<open>forEach\<close> body of \<open>renderMessages\<close>: it puts \<open>msg.role\<close> in
  the class name, compares it with \<open>'user'\<close> for the avatar and hands \<open>msg.content\<close>
  to \<open>marked.parse\<close>; the node is added once all of this went through. The copy buttons
  it adds to code blocks and the scrolling change nothing that is modelled.
\<close>

definition render_message :: "platform \<Rightarrow> jsval \<Rightarrow> js_error + dom_node" where
  "render_message P msg =
     (case js_get P msg (js ''role'') of
        Inl e \<Rightarrow> Inl e
      | Inr role \<Rightarrow>
          (case interpolate P role of
             Inl e \<Rightarrow> Inl e
           | Inr role_text \<Rightarrow>
               (case js_get P msg (js ''content'') of
                  Inl e \<Rightarrow> Inl e
                | Inr content \<Rightarrow>
                    (case marked_parse P content of
                       Inl e \<Rightarrow> Inl e
                     | Inr html \<Rightarrow>
                         Inr (MessageDiv (js ''message '' @ role_text)
                                (role = JStr (js ''user'')) html)))))"

fun render_loop :: "platform \<Rightarrow> jsval list \<Rightarrow> state \<Rightarrow> completion \<times> state" where
  "render_loop P [] s = (Returned, s)"
| "render_loop P (msg # msgs) s =
     (case render_message P msg of
        Inl e \<Rightarrow> (Threw e, s)
      | Inr node \<Rightarrow> render_loop P msgs (s\<lparr>chatMessages := chatMessages s @ [node]\<rparr>))"

definition renderMessages :: "platform \<Rightarrow> state \<Rightarrow> completion \<times> state" where
  "renderMessages P s =
     (let s1 = s\<lparr>chatMessages := []\<rparr> in
      case conversationHistory s1 of
        JArr msgs \<Rightarrow> render_loop P msgs s1
      | v \<Rightarrow> (Threw (type_error P v (js ''forEach'')), s1))"

definition showTypingIndicator :: "state \<Rightarrow> state" where
  "showTypingIndicator s = s\<lparr>chatMessages := chatMessages s @ [TypingIndicator]\<rparr>"

definition removeTypingIndicator :: "state \<Rightarrow> state" where
  "removeTypingIndicator s = s\<lparr>chatMessages := remove1 TypingIndicator (chatMessages s)\<rparr>"

section \<open>Conversation store and persistence\<close>

definition saveConversation :: "platform \<Rightarrow> state \<Rightarrow> completion \<times> state" where
  "saveConversation P s =
     (let text = JSON_stringify P (conversationHistory s) in
      case setItem_error P (localStorage s) storage_key text of
        Some e \<Rightarrow> (Threw e, s)
      | None \<Rightarrow> (Returned, s\<lparr>localStorage := (localStorage s)(storage_key \<mapsto> text)\<rparr>))"

text \<open>
  \<open>loadConversation\<close>: a missing key (\<open>null\<close>) and the empty string are falsy; the
  assignment and the render are inside \<open>try\<close>, and the handler only logs.
\<close>

definition loadConversation :: "platform \<Rightarrow> state \<Rightarrow> completion \<times> state" where
  "loadConversation P s =
     (case localStorage s storage_key of
        None \<Rightarrow> (Returned, s)
      | Some saved \<Rightarrow>
          if saved = [] then (Returned, s)
          else
            (case JSON_parse P saved of
               Inl e \<Rightarrow> (Returned, s\<lparr>console := console s @ [e]\<rparr>)
             | Inr v \<Rightarrow>
                 (case renderMessages P (s\<lparr>conversationHistory := v\<rparr>) of
                    (Returned, s') \<Rightarrow> (Returned, s')
                  | (Threw e, s') \<Rightarrow> (Returned, s'\<lparr>console := console s' @ [e]\<rparr>))))"

text \<open>The object literal \<open>{ role, content }\<close>.\<close>

definition mk_message :: "jsstring \<Rightarrow> jsval \<Rightarrow> jsval" where
  "mk_message role content = JObj [(js ''role'', JStr role), (js ''content'', content)]"

text \<open>
  \<open>addMessage\<close>: \<open>push\<close> exists on arrays only; then the save, then the render, each of
  which may throw past the ones after it.
\<close>

definition addMessage :: "platform \<Rightarrow> jsstring \<Rightarrow> jsval \<Rightarrow> state \<Rightarrow> completion \<times> state" where
  "addMessage P role content s =
     (case conversationHistory s of
        JArr msgs \<Rightarrow>
          (case saveConversation P
                  (s\<lparr>conversationHistory := JArr (msgs @ [mk_message role content])\<rparr>) of
             (Threw e, s1) \<Rightarrow> (Threw e, s1)
           | (Returned, s1) \<Rightarrow> renderMessages P s1)
      | v \<Rightarrow> (Threw (type_error P v (js ''push'')), s))"

text \<open>
  \<open>startNewChat\<close>; \<open>answer\<close> is what the user replies if \<open>confirm\<close> is shown.
\<close>

definition startNewChat :: "platform \<Rightarrow> bool \<Rightarrow> state \<Rightarrow> completion \<times> state" where
  "startNewChat P answer s =
     (case length_gt_1 P (conversationHistory s) of
        Inl e \<Rightarrow> (Threw e, s)
      | Inr many \<Rightarrow>
          (let s1 = (if many then s\<lparr>confirms := confirms s + 1\<rparr> else s) in
           if many \<and> \<not> answer then (Returned, s1)
           else
             (case saveConversation P (s1\<lparr>conversationHistory := JArr []\<rparr>) of
                (Threw e, s2) \<Rightarrow> (Threw e, s2)
              | (Returned, s2) \<Rightarrow>
                  (case renderMessages P s2 of
                     (Threw e, s3) \<Rightarrow> (Threw e, s3)
                   | (Returned, s3) \<Rightarrow> (Returned, closeSidebar s3)))))"

section \<open>Completion client\<close>

definition fetch_post :: "jsstring \<Rightarrow> jsstring \<Rightarrow> state \<Rightarrow> state" where
  "fetch_post u b s = s\<lparr>requests := requests s @ [\<lparr>url = u, body = b\<rparr>]\<rparr>"

text \<open>
  What every handler does with the outcome of its \<open>fetch\<close> (the four handlers share this
  text): rethrow a rejection, throw on a status that is not \<open>ok\<close>, otherwise parse the
  body and return its \<open>reply\<close> property.
\<close>

definition await_reply :: "platform \<Rightarrow> fetch_result \<Rightarrow> js_error + jsval" where
  "await_reply P net =
     (case net of
        Rejected e \<Rightarrow> Inl e
      | Response st parsed \<Rightarrow>
          if \<not> ok net
          then Inl (JsError (js ''Error'') (js ''HTTP error! status: '' @ dec st))
          else (case parsed of Inl e \<Rightarrow> Inl e | Inr data \<Rightarrow> js_get P data (js ''reply'')))"

definition chat_payload :: "jsstring \<Rightarrow> jsval \<Rightarrow> jsval" where
  "chat_payload message history =
     JObj [(js ''prompt'', JStr message), (js ''history'', history)]"

definition handleChatRequest ::
  "platform \<Rightarrow> fetch_result \<Rightarrow> jsstring \<Rightarrow> state \<Rightarrow> (js_error + jsval) \<times> state" where
  "handleChatRequest P net message s =
     (case slice_0_m1 P (conversationHistory s) of
        Inl e \<Rightarrow> (Inl e, s)
      | Inr history \<Rightarrow>
          (await_reply P net,
           fetch_post (API_BASE @ js ''/chat'')
             (JSON_stringify P (chat_payload message history)) s))"

definition handleDebugRequest ::
  "platform \<Rightarrow> fetch_result \<Rightarrow> jsstring \<Rightarrow> state \<Rightarrow> (js_error + jsval) \<times> state" where
  "handleDebugRequest P net message s =
     (await_reply P net,
      fetch_post (API_BASE @ js ''/debug'')
        (JSON_stringify P (JObj [(js ''code'', JStr message)])) s)"

definition handleExplainRequest ::
  "platform \<Rightarrow> fetch_result \<Rightarrow> jsstring \<Rightarrow> state \<Rightarrow> (js_error + jsval) \<times> state" where
  "handleExplainRequest P net message s =
     (await_reply P net,
      fetch_post (API_BASE @ js ''/explain'')
        (JSON_stringify P (JObj [(js ''code'', JStr message)])) s)"

definition handleGenerateRequest ::
  "platform \<Rightarrow> fetch_result \<Rightarrow> jsstring \<Rightarrow> state \<Rightarrow> (js_error + jsval) \<times> state" where
  "handleGenerateRequest P net message s =
     (await_reply P net,
      fetch_post (API_BASE @ js ''/generate'')
        (JSON_stringify P (JObj [(js ''spec'', JStr message)])) s)"

section \<open>Sending\<close>

text \<open>The \<open>switch\<close> of \<open>handleSend\<close>; \<open>chat\<close> falls under \<open>default\<close>.\<close>

definition dispatch ::
  "platform \<Rightarrow> fetch_result \<Rightarrow> jsstring \<Rightarrow> state \<Rightarrow> (js_error + jsval) \<times> state" where
  "dispatch P net message s =
     (case currentAction s of
        Debug \<Rightarrow> handleDebugRequest P net message s
      | Explain \<Rightarrow> handleExplainRequest P net message s
      | Generate \<Rightarrow> handleGenerateRequest P net message s
      | Chat \<Rightarrow> handleChatRequest P net message s)"

text \<open>The \<open>catch\<close> block of \<open>handleSend\<close>.\<close>

definition handleSend_catch :: "platform \<Rightarrow> js_error \<Rightarrow> state \<Rightarrow> completion \<times> state" where
  "handleSend_catch P e s =
     addMessage P (js ''assistant'') (JStr (js ''Error: '' @ error_message e))
       (removeTypingIndicator s)"

text \<open>
  The \<open>try\<close> statement of \<open>handleSend\<close>: what is thrown in the \<open>try\<close> block, by
  the request or by the \<open>addMessage\<close> after it, goes to the \<open>catch\<close> block; what the
  \<open>catch\<close> block throws leaves the statement.
\<close>

definition handleSend_try ::
  "platform \<Rightarrow> fetch_result \<Rightarrow> jsstring \<Rightarrow> state \<Rightarrow> completion \<times> state" where
  "handleSend_try P net message s =
     (case dispatch P net message s of
        (Inl e, s1) \<Rightarrow> handleSend_catch P e s1
      | (Inr response, s1) \<Rightarrow>
          (case addMessage P (js ''assistant'') response (removeTypingIndicator s1) of
             (Threw e, s2) \<Rightarrow> handleSend_catch P e s2
           | (Returned, s2) \<Rightarrow> (Returned, s2)))"

text \<open>
  \<open>handleSend\<close>, run from its call to the end of its round trip, whose outcome is
  \<open>net\<close>, with no other listener running while the request is in flight. The first \<open>addMessage\<close> stands before \<open>try\<close>; the assignment
  \<open>currentAction = 'chat'\<close> stands after the \<open>try\<close> statement, so it is reached only
  when nothing is thrown past that statement.
\<close>

definition handleSend :: "platform \<Rightarrow> fetch_result \<Rightarrow> state \<Rightarrow> completion \<times> state" where
  "handleSend P net s =
     (let message = trim (chatInput s) in
      if message = [] then (Returned, s)
      else
        (case addMessage P (js ''user'') (JStr message) s of
           (Threw e, s1) \<Rightarrow> (Threw e, s1)
         | (Returned, s1) \<Rightarrow>
             (case handleSend_try P net message
                     (showTypingIndicator (s1\<lparr>chatInput := []\<rparr>)) of
                (Threw e, s2) \<Rightarrow> (Threw e, s2)
              | (Returned, s2) \<Rightarrow> (Returned, s2\<lparr>currentAction := Chat\<rparr>))))"

text \<open>
  \<open>handleSend\<close> cut at its \<open>await\<close>. \<open>handleSend_begin\<close> is the part that runs at
  once: it ends at the blank input, at a first \<open>addMessage\<close> that throws, or with the
  request posted and the handler's promise pending; that promise will settle with the
  value \<open>r\<close> the round trip gives. \<open>handleSend_resume\<close> is the part that runs when the
  promise has settled, on the state the page has by then: the rest of the \<open>try\<close>
  statement and the assignment \<open>currentAction = 'chat'\<close>. Other listeners can run in
  between.
\<close>

definition handleSend_settle ::
  "platform \<Rightarrow> js_error + jsval \<Rightarrow> state \<Rightarrow> completion \<times> state" where
  "handleSend_settle P r s =
     (case r of
        Inl e \<Rightarrow> handleSend_catch P e s
      | Inr response \<Rightarrow>
          (case addMessage P (js ''assistant'') response (removeTypingIndicator s) of
             (Threw e, s2) \<Rightarrow> handleSend_catch P e s2
           | (Returned, s2) \<Rightarrow> (Returned, s2)))"

definition handleSend_begin ::
  "platform \<Rightarrow> fetch_result \<Rightarrow> state \<Rightarrow> (completion + (js_error + jsval)) \<times> state" where
  "handleSend_begin P net s =
     (let message = trim (chatInput s) in
      if message = [] then (Inl Returned, s)
      else
        (case addMessage P (js ''user'') (JStr message) s of
           (Threw e, s1) \<Rightarrow> (Inl (Threw e), s1)
         | (Returned, s1) \<Rightarrow>
             (case dispatch P net message (showTypingIndicator (s1\<lparr>chatInput := []\<rparr>)) of
                (r, s2) \<Rightarrow> (Inr r, s2))))"

definition handleSend_resume ::
  "platform \<Rightarrow> js_error + jsval \<Rightarrow> state \<Rightarrow> completion \<times> state" where
  "handleSend_resume P r s =
     (case handleSend_settle P r s of
        (Threw e, s1) \<Rightarrow> (Threw e, s1)
      | (Returned, s1) \<Rightarrow> (Returned, s1\<lparr>currentAction := Chat\<rparr>))"

section \<open>Event listeners\<close>

text \<open>
  The listeners of \<open>setupEventListeners\<close> and the \<open>resize\<close> listener, one event for
  each, together with the user's typing. A listener that sends runs to the end of its
  round trip before the next event. An exception that leaves a listener is reported by the
  browser and the page goes on with the state reached. \<open>loadConversation\<close> is no
  event: it runs once, when the page is loaded, before the listeners are installed.
\<close>

datatype event =
    SendClick fetch_result
  | KeyDown jsstring bool fetch_result
  | DebugClick fetch_result
  | ExplainClick fetch_result
  | GenerateClick fetch_result
  | NewChatClick bool
  | SidebarToggleClick
  | DocumentClick bool
  | Resize nat
  | Typed jsstring

definition step :: "platform \<Rightarrow> event \<Rightarrow> state \<Rightarrow> completion \<times> state" where
  "step P ev s =
     (case ev of
        SendClick net \<Rightarrow> handleSend P net s
      | KeyDown key shift net \<Rightarrow>
          if key = js ''Enter'' \<and> \<not> shift then handleSend P net s else (Returned, s)
      | DebugClick net \<Rightarrow> handleSend P net (s\<lparr>currentAction := Debug\<rparr>)
      | ExplainClick net \<Rightarrow> handleSend P net (s\<lparr>currentAction := Explain\<rparr>)
      | GenerateClick net \<Rightarrow> handleSend P net (s\<lparr>currentAction := Generate\<rparr>)
      | NewChatClick answer \<Rightarrow> startNewChat P answer s
      | SidebarToggleClick \<Rightarrow> (Returned, toggleSidebar s)
      | DocumentClick outside \<Rightarrow>
          (Returned,
           if isSidebarOpen s \<and> innerWidth s \<le> 768 \<and> outside then closeSidebar s else s)
      | Resize w \<Rightarrow> (Returned, checkMobileView (s\<lparr>innerWidth := w\<rparr>))
      | Typed text \<Rightarrow> (Returned, s\<lparr>chatInput := text\<rparr>))"

section \<open>A platform for the worked examples\<close>

text \<open>
  The theorems below hold for every platform. Their worked examples run on this one: a
  JSON printer for the values the examples store, a parser that recognises the texts of
  the listed values, a renderer that, like \<open>marked\<close>, accepts strings only, and a store
  that refuses a write once key and value together exceed \<open>quota\<close> code units. No
  example holds a number, compares an object with a number or converts an array or an
  object to a string.
\<close>

fun join :: "jsstring \<Rightarrow> jsstring list \<Rightarrow> jsstring" where
  "join sep [] = []"
| "join sep [x] = x"
| "join sep (x # y # ys) = x @ sep @ join sep (y # ys)"

definition quote :: "jsstring \<Rightarrow> jsstring" where
  "quote s =
     [0x22] @ concat (map (\<lambda>c. if c = 0x22 \<or> c = 0x5C then [0x5C, c] else [c]) s) @ [0x22]"

fun example_stringify :: "jsval \<Rightarrow> jsstring" where
  "example_stringify JUndefined = js ''null''"
| "example_stringify JNull = js ''null''"
| "example_stringify (JBool b) = (if b then js ''true'' else js ''false'')"
| "example_stringify (JNum w) = dec (unat w)"
| "example_stringify (JStr s) = quote s"
| "example_stringify (JArr vs) = js ''['' @ join (js '','') (map example_stringify vs) @ js '']''"
| "example_stringify (JObj kvs) =
     js ''{'' @ join (js '','')
        (map (\<lambda>(k, v). quote k @ js '':'' @ example_stringify v)
           (filter (\<lambda>(k, v). v \<noteq> JUndefined) kvs)) @ js ''}''"

definition example_corpus :: "jsval list" where
  "example_corpus =
     [JArr [],
      JArr [JBool True],
      JArr [mk_message (js ''user'') (JStr (js ''hi''))],
      JArr [mk_message (js ''user'') (JStr (js ''hi'')),
            mk_message (js ''assistant'') (JStr (js ''hello''))]]"

definition example_parse :: "jsstring \<Rightarrow> js_error + jsval" where
  "example_parse text =
     (case find (\<lambda>v. example_stringify v = text) example_corpus of
        Some v \<Rightarrow> Inr v
      | None \<Rightarrow> Inl (JsError (js ''SyntaxError'') (js ''Unexpected token'')))"

definition example_marked :: "jsval \<Rightarrow> js_error + jsstring" where
  "example_marked v =
     (case v of
        JStr s \<Rightarrow> Inr (js ''<p>'' @ s @ js ''</p>'')
      | _ \<Rightarrow> Inl (JsError (js ''Error'') (js ''marked(): input parameter is not a string'')))"

definition example_platform :: "nat \<Rightarrow> platform" where
  "example_platform quota =
     \<lparr> JSON_parse = example_parse,
       JSON_stringify = example_stringify,
       marked_parse = example_marked,
       setItem_error = (\<lambda>store k v.
          if quota < length k + length v
          then Some (JsError (js ''QuotaExceededError'') (js ''The quota has been exceeded.''))
          else None),
       type_error = (\<lambda>v m. JsError (js ''TypeError'') (m @ js '' is not a function'')),
       gt_one = (\<lambda>v. False),
       to_string = (\<lambda>v. Inr (example_stringify v)) \<rparr>"

text \<open>
  A run in which a mode button is pressed while a send is in flight: the input \<open>a\<close> is
  sent in chat mode and its request is pending; Explain is clicked over the input the send
  has emptied; the answer \<open>ok\<close> arrives; then \<open>x\<close> is typed and sent.
\<close>

definition overlap_in_flight :: state where
  "overlap_in_flight =
     snd (handleSend_begin (example_platform 1000)
            (Response 200 (Inr (JObj [(js ''reply'', JStr (js ''ok''))])))
            ((initial_state Map.empty 1024)\<lparr>chatInput := js ''a''\<rparr>))"

definition overlap_mode_clicked :: state where
  "overlap_mode_clicked =
     snd (step (example_platform 1000)
            (ExplainClick (Response 200 (Inr (JObj [(js ''reply'', JStr (js ''ok''))]))))
            overlap_in_flight)"

definition overlap_answered :: state where
  "overlap_answered =
     snd (handleSend_resume (example_platform 1000) (Inr (JStr (js ''ok'')))
            overlap_mode_clicked)"

definition overlap_next_send :: state where
  "overlap_next_send =
     snd (step (example_platform 1000)
            (SendClick (Response 200 (Inr (JObj [(js ''reply'', JStr (js ''ok''))]))))
            (snd (step (example_platform 1000) (Typed (js ''x'')) overlap_answered)))"

section \<open>Frame and shape lemmas\<close>

text \<open>What each procedure can change, and what it does to the history.\<close>

lemma render_loop_frame:
  "render_loop P msgs s = (c, s') \<Longrightarrow> \<exists>nodes. s' = s\<lparr>chatMessages := nodes\<rparr>"
proof (induction msgs arbitrary: s)
  case Nil
  then have "s' = s\<lparr>chatMessages := chatMessages s\<rparr>" by simp
  then show ?case by blast
next
  case (Cons msg msgs)
  show ?case
  proof (cases "render_message P msg")
    case (Inl e)
    with Cons.prems have "s' = s\<lparr>chatMessages := chatMessages s\<rparr>" by simp
    then show ?thesis by blast
  next
    case (Inr node)
    with Cons.prems have "render_loop P msgs (s\<lparr>chatMessages := chatMessages s @ [node]\<rparr>) = (c, s')"
      by simp
    from Cons.IH [OF this] obtain nodes
      where "s' = s\<lparr>chatMessages := chatMessages s @ [node]\<rparr>\<lparr>chatMessages := nodes\<rparr>" by blast
    then have "s' = s\<lparr>chatMessages := nodes\<rparr>" by simp
    then show ?thesis by blast
  qed
qed

lemma renderMessages_frame:
  assumes "renderMessages P s = (c, s')"
  shows "\<exists>nodes. s' = s\<lparr>chatMessages := nodes\<rparr>"
proof (cases "\<exists>msgs. conversationHistory s = JArr msgs")
  case True
  then obtain msgs where "conversationHistory s = JArr msgs" by blast
  with assms have "render_loop P msgs (s\<lparr>chatMessages := []\<rparr>) = (c, s')"
    by (simp add: renderMessages_def)
  from render_loop_frame [OF this] obtain nodes
    where "s' = s\<lparr>chatMessages := []\<rparr>\<lparr>chatMessages := nodes\<rparr>" by blast
  then have "s' = s\<lparr>chatMessages := nodes\<rparr>" by simp
  then show ?thesis by blast
next
  case False
  with assms have "s' = s\<lparr>chatMessages := []\<rparr>"
    by (cases "conversationHistory s") (auto simp: renderMessages_def)
  then show ?thesis by blast
qed

lemma saveConversation_frame:
  "saveConversation P s = (c, s') \<Longrightarrow> \<exists>store. s' = s\<lparr>localStorage := store\<rparr>"
proof (cases "setItem_error P (localStorage s) storage_key (JSON_stringify P (conversationHistory s))")
  case None
  assume "saveConversation P s = (c, s')"
  with None show ?thesis by (auto simp: saveConversation_def)
next
  case (Some e)
  assume "saveConversation P s = (c, s')"
  with Some have "s' = s\<lparr>localStorage := localStorage s\<rparr>" by (simp add: saveConversation_def)
  then show ?thesis by blast
qed

lemma addMessage_array:
  assumes "conversationHistory s = JArr msgs"
  shows "addMessage P role content s =
     (case setItem_error P (localStorage s) storage_key
             (JSON_stringify P (JArr (msgs @ [mk_message role content]))) of
        Some e \<Rightarrow> (Threw e, s\<lparr>conversationHistory := JArr (msgs @ [mk_message role content])\<rparr>)
      | None \<Rightarrow>
          renderMessages P
            (s\<lparr>conversationHistory := JArr (msgs @ [mk_message role content]),
               localStorage := (localStorage s)(storage_key \<mapsto>
                 JSON_stringify P (JArr (msgs @ [mk_message role content])))\<rparr>))"
  using assms by (simp add: addMessage_def saveConversation_def split: option.splits)

lemma addMessage_not_array:
  assumes "\<forall>msgs. conversationHistory s \<noteq> JArr msgs"
  shows "addMessage P role content s =
           (Threw (type_error P (conversationHistory s) (js ''push'')), s)"
  using assms by (cases "conversationHistory s") (simp_all add: addMessage_def)

lemma addMessage_frame:
  assumes "addMessage P role content s = (c, s')"
  shows "\<exists>h store nodes.
           s' = s\<lparr>conversationHistory := h, chatMessages := nodes, localStorage := store\<rparr>"
proof (cases "\<exists>msgs. conversationHistory s = JArr msgs")
  case True
  then obtain msgs where arr: "conversationHistory s = JArr msgs" by blast
  let ?h = "JArr (msgs @ [mk_message role content])"
  let ?text = "JSON_stringify P ?h"
  show ?thesis
  proof (cases "setItem_error P (localStorage s) storage_key ?text")
    case None
    let ?s1 = "s\<lparr>conversationHistory := ?h,
                   localStorage := (localStorage s)(storage_key \<mapsto> ?text)\<rparr>"
    from assms None have "renderMessages P ?s1 = (c, s')"
      by (simp add: addMessage_array [OF arr])
    from renderMessages_frame [OF this] obtain nodes
      where "s' = ?s1\<lparr>chatMessages := nodes\<rparr>" by blast
    then have "s' = s\<lparr>conversationHistory := ?h, chatMessages := nodes,
                        localStorage := (localStorage s)(storage_key \<mapsto> ?text)\<rparr>"
      by simp
    then show ?thesis by blast
  next
    case (Some e)
    with assms have "s' = s\<lparr>conversationHistory := ?h\<rparr>"
      by (simp add: addMessage_array [OF arr])
    then have "s' = s\<lparr>conversationHistory := ?h, chatMessages := chatMessages s,
                        localStorage := localStorage s\<rparr>"
      by simp
    then show ?thesis by blast
  qed
next
  case False
  with assms have "s' = s" by (simp add: addMessage_not_array)
  then have "s' = s\<lparr>conversationHistory := conversationHistory s,
                      chatMessages := chatMessages s, localStorage := localStorage s\<rparr>"
    by simp
  then show ?thesis by blast
qed

lemma addMessage_history:
  assumes "conversationHistory s = JArr msgs" and "addMessage P role content s = (c, s')"
  shows "conversationHistory s' = JArr (msgs @ [mk_message role content])"
proof (cases "setItem_error P (localStorage s) storage_key
                (JSON_stringify P (JArr (msgs @ [mk_message role content])))")
  case None
  with assms obtain s1 where "renderMessages P s1 = (c, s')"
    and "conversationHistory s1 = JArr (msgs @ [mk_message role content])"
    by (simp add: addMessage_array)
  with renderMessages_frame [of P s1 c s'] show ?thesis by auto
next
  case (Some e)
  with assms show ?thesis by (auto simp: addMessage_array)
qed

lemma addMessage_Returned_array:
  assumes "addMessage P role content s = (Returned, s')"
  shows "\<exists>msgs. conversationHistory s = JArr msgs"
proof (rule ccontr)
  assume "\<not> ?thesis"
  then have "addMessage P role content s =
               (Threw (type_error P (conversationHistory s) (js ''push'')), s)"
    by (simp add: addMessage_not_array)
  with assms show False by simp
qed

text \<open>A trimmed input is empty exactly when the input is blank.\<close>

lemma trim_empty_iff: "trim t = [] \<longleftrightarrow> (\<forall>c\<in>set t. is_js_whitespace c)"
proof
  assume "trim t = []"
  then have "dropWhile is_js_whitespace (rev (dropWhile is_js_whitespace t)) = []"
    by (simp add: trim_def)
  then have "\<forall>c\<in>set (dropWhile is_js_whitespace t). is_js_whitespace c"
    by simp
  then have "dropWhile is_js_whitespace t = []"
    by (metis hd_dropWhile hd_in_set)
  then show "\<forall>c\<in>set t. is_js_whitespace c"
    by simp
next
  assume "\<forall>c\<in>set t. is_js_whitespace c"
  then have "dropWhile is_js_whitespace t = []" by simp
  then show "trim t = []" unfolding trim_def by (simp only: rev.simps dropWhile.simps)
qed

text \<open>The request each mode posts.\<close>

lemma dispatch_Debug:
  "currentAction s = Debug \<Longrightarrow>
   dispatch P net m s =
     (await_reply P net,
      fetch_post (API_BASE @ js ''/debug'') (JSON_stringify P (JObj [(js ''code'', JStr m)])) s)"
  by (simp add: dispatch_def handleDebugRequest_def)

lemma dispatch_Explain:
  "currentAction s = Explain \<Longrightarrow>
   dispatch P net m s =
     (await_reply P net,
      fetch_post (API_BASE @ js ''/explain'') (JSON_stringify P (JObj [(js ''code'', JStr m)])) s)"
  by (simp add: dispatch_def handleExplainRequest_def)

lemma dispatch_Generate:
  "currentAction s = Generate \<Longrightarrow>
   dispatch P net m s =
     (await_reply P net,
      fetch_post (API_BASE @ js ''/generate'') (JSON_stringify P (JObj [(js ''spec'', JStr m)])) s)"
  by (simp add: dispatch_def handleGenerateRequest_def)

lemma dispatch_Chat:
  "currentAction s = Chat \<Longrightarrow> conversationHistory s = JArr h \<Longrightarrow>
   dispatch P net m s =
     (await_reply P net,
      fetch_post (API_BASE @ js ''/chat'')
        (JSON_stringify P (chat_payload m (JArr (butlast h)))) s)"
  by (simp add: dispatch_def handleChatRequest_def)

lemma dispatch_array:
  assumes "conversationHistory s = JArr h"
  shows "\<exists>rq. dispatch P net m s = (await_reply P net, s\<lparr>requests := requests s @ [rq]\<rparr>)"
  using assms
  by (cases "currentAction s")
     (auto simp: dispatch_def handleChatRequest_def handleDebugRequest_def
        handleExplainRequest_def handleGenerateRequest_def fetch_post_def)

text \<open>What the \<open>catch\<close> block and the \<open>try\<close> statement can change.\<close>

lemma handleSend_catch_frame:
  assumes "handleSend_catch P e s = (c, s')"
  shows "\<exists>h store nodes.
           s' = s\<lparr>conversationHistory := h, chatMessages := nodes, localStorage := store\<rparr>"
proof -
  from assms have "addMessage P (js ''assistant'') (JStr (js ''Error: '' @ error_message e))
                     (removeTypingIndicator s) = (c, s')"
    by (simp add: handleSend_catch_def)
  from addMessage_frame [OF this] obtain h store nodes where
    "s' = (removeTypingIndicator s)\<lparr>conversationHistory := h, chatMessages := nodes,
                                     localStorage := store\<rparr>"
    by blast
  then have "s' = s\<lparr>conversationHistory := h, chatMessages := nodes, localStorage := store\<rparr>"
    by (simp add: removeTypingIndicator_def)
  then show ?thesis by blast
qed

lemma handleSend_try_frame:
  assumes "handleSend_try P net m s = (c, s')" and "dispatch P net m s = (r, s1)"
  shows "\<exists>h store nodes.
           s' = s1\<lparr>conversationHistory := h, chatMessages := nodes, localStorage := store\<rparr>"
proof (cases r)
  case (Inl e)
  with assms have "handleSend_catch P e s1 = (c, s')" by (simp add: handleSend_try_def)
  from handleSend_catch_frame [OF this] show ?thesis .
next
  case (Inr response)
  obtain c2 s2 where
    a: "addMessage P (js ''assistant'') response (removeTypingIndicator s1) = (c2, s2)"
    by force
  from addMessage_frame [OF a] obtain h store nodes where
    "s2 = (removeTypingIndicator s1)\<lparr>conversationHistory := h, chatMessages := nodes,
                                      localStorage := store\<rparr>"
    by blast
  then have s2: "s2 = s1\<lparr>conversationHistory := h, chatMessages := nodes, localStorage := store\<rparr>"
    by (simp add: removeTypingIndicator_def)
  show ?thesis
  proof (cases c2)
    case Returned
    with assms Inr a have "s' = s2" by (simp add: handleSend_try_def)
    with s2 show ?thesis by blast
  next
    case (Threw e)
    with assms Inr a have "handleSend_catch P e s2 = (c, s')" by (simp add: handleSend_try_def)
    from handleSend_catch_frame [OF this] obtain h' store' nodes' where
      "s' = s2\<lparr>conversationHistory := h', chatMessages := nodes', localStorage := store'\<rparr>"
      by blast
    with s2 have
      "s' = s1\<lparr>conversationHistory := h', chatMessages := nodes', localStorage := store'\<rparr>"
      by simp
    then show ?thesis by blast
  qed
qed

text \<open>
  The ways a send can go: a blank input, a first \<open>addMessage\<close> that throws, or one
  that returns, after which exactly one request is posted.
\<close>

lemma handleSend_blank:
  "trim (chatInput s) = [] \<Longrightarrow> handleSend P net s = (Returned, s)"
  by (simp add: handleSend_def)

lemma handleSend_first_append_throws:
  assumes "trim (chatInput s) \<noteq> []"
    and "addMessage P (js ''user'') (JStr (trim (chatInput s))) s = (Threw e, s1)"
  shows "handleSend P net s = (Threw e, s1)"
  using assms by (simp add: handleSend_def)

lemma handleSend_first_append_returns:
  assumes "trim (chatInput s) \<noteq> []"
    and "addMessage P (js ''user'') (JStr (trim (chatInput s))) s = (Returned, s1)"
    and "handleSend_try P net (trim (chatInput s))
           (showTypingIndicator (s1\<lparr>chatInput := []\<rparr>)) = (c2, s2)"
  shows "handleSend P net s =
           (c2, case c2 of Returned \<Rightarrow> s2\<lparr>currentAction := Chat\<rparr> | Threw e \<Rightarrow> s2)"
  using assms by (cases c2) (simp_all add: handleSend_def)

lemma handleSend_nonblank_cases:
  assumes nb: "trim (chatInput s) \<noteq> []" and hs: "handleSend P net s = (c, s')"
  obtains (early) e where "c = Threw e"
      and "addMessage P (js ''user'') (JStr (trim (chatInput s))) s = (Threw e, s')"
    | (sent) s1 s2 rq where
          "addMessage P (js ''user'') (JStr (trim (chatInput s))) s = (Returned, s1)"
      and "dispatch P net (trim (chatInput s)) (showTypingIndicator (s1\<lparr>chatInput := []\<rparr>)) =
             (await_reply P net,
              (showTypingIndicator (s1\<lparr>chatInput := []\<rparr>))\<lparr>requests := requests s @ [rq]\<rparr>)"
      and "handleSend_try P net (trim (chatInput s))
             (showTypingIndicator (s1\<lparr>chatInput := []\<rparr>)) = (c, s2)"
      and "requests s2 = requests s @ [rq]"
      and "currentAction s2 = currentAction s"
      and "s' = (case c of Returned \<Rightarrow> s2\<lparr>currentAction := Chat\<rparr> | Threw e \<Rightarrow> s2)"
proof -
  let ?m = "trim (chatInput s)"
  obtain c1 s1 where a1: "addMessage P (js ''user'') (JStr ?m) s = (c1, s1)" by force
  show thesis
  proof (cases c1)
    case (Threw e)
    with handleSend_first_append_throws [OF nb] a1 hs
    have "c = Threw e" and "s' = s1" by simp_all
    with a1 Threw early show thesis by simp
  next
    case Returned
    let ?t = "showTypingIndicator (s1\<lparr>chatInput := []\<rparr>)"
    from a1 Returned have a1': "addMessage P (js ''user'') (JStr ?m) s = (Returned, s1)" by simp
    from addMessage_frame [OF a1'] obtain h store nodes where
      s1: "s1 = s\<lparr>conversationHistory := h, chatMessages := nodes, localStorage := store\<rparr>"
      by blast
    from addMessage_Returned_array [OF a1'] obtain old where
      old: "conversationHistory s = JArr old" by blast
    from addMessage_history [OF old a1'] have
      "conversationHistory ?t = JArr (old @ [mk_message (js ''user'') (JStr ?m)])"
      by (simp add: showTypingIndicator_def)
    from dispatch_array [OF this, of P net ?m] obtain rq where
      "dispatch P net ?m ?t = (await_reply P net, ?t\<lparr>requests := requests ?t @ [rq]\<rparr>)"
      by blast
    with s1 have d: "dispatch P net ?m ?t = (await_reply P net, ?t\<lparr>requests := requests s @ [rq]\<rparr>)"
      by (simp add: showTypingIndicator_def)
    obtain c2 s2 where t: "handleSend_try P net ?m ?t = (c2, s2)" by force
    from handleSend_try_frame [OF t d] obtain h' store' nodes' where
      "s2 = ?t\<lparr>requests := requests s @ [rq]\<rparr>\<lparr>conversationHistory := h',
               chatMessages := nodes', localStorage := store'\<rparr>"
      by blast
    with s1 have r2: "requests s2 = requests s @ [rq]" and c2: "currentAction s2 = currentAction s"
      by (simp_all add: showTypingIndicator_def)
    from handleSend_first_append_returns [OF nb a1' t] hs
    have "c = c2" and "s' = (case c2 of Returned \<Rightarrow> s2\<lparr>currentAction := Chat\<rparr> | Threw e \<Rightarrow> s2)"
      by simp_all
    with a1' d t r2 c2 sent show thesis by simp
  qed
qed

text \<open>A failed request yields an error; rendering returns when every message renders.\<close>

lemma await_reply_failed:
  assumes "\<not> ok net"
  shows "\<exists>e. await_reply P net = Inl e \<and>
             error_message e =
               (case net of Rejected r \<Rightarrow> error_message r
                | Response st b \<Rightarrow> js ''HTTP error! status: '' @ dec st)"
  using assms by (cases net) (simp_all add: await_reply_def)

lemma render_loop_Returned_iff:
  "fst (render_loop P msgs s) = Returned \<longleftrightarrow>
     (\<forall>m\<in>set msgs. \<exists>node. render_message P m = Inr node)"
proof (induction msgs arbitrary: s)
  case Nil
  show ?case by simp
next
  case (Cons m msgs)
  show ?case
  proof (cases "render_message P m")
    case (Inl e)
    then show ?thesis by simp
  next
    case (Inr node)
    with Cons.IH [of "s\<lparr>chatMessages := chatMessages s @ [node]\<rparr>"] show ?thesis by simp
  qed
qed

lemma renderMessages_Returned_iff:
  "conversationHistory s = JArr msgs \<Longrightarrow>
   fst (renderMessages P s) = Returned \<longleftrightarrow>
     (\<forall>m\<in>set msgs. \<exists>node. render_message P m = Inr node)"
  by (simp add: renderMessages_def render_loop_Returned_iff)

lemma render_message_mk_message:
  "render_message P (mk_message role content) =
     (case marked_parse P content of
        Inl e \<Rightarrow> Inl e
      | Inr html \<Rightarrow> Inr (MessageDiv (js ''message '' @ role) (role = js ''user'') html))"
  by (simp add: render_message_def mk_message_def interpolate_def js_def split: sum.splits)

text \<open>During a send the history only grows at its end.\<close>

lemma handleSend_catch_history:
  assumes "conversationHistory s = JArr msgs" and "handleSend_catch P e s = (c, s')"
  shows "conversationHistory s' =
           JArr (msgs @ [mk_message (js ''assistant'') (JStr (js ''Error: '' @ error_message e))])"
proof -
  from assms(1) have "conversationHistory (removeTypingIndicator s) = JArr msgs"
    by (simp add: removeTypingIndicator_def)
  from addMessage_history [OF this] assms(2) show ?thesis
    by (simp add: handleSend_catch_def)
qed

lemma handleSend_try_history:
  assumes "conversationHistory s = JArr msgs" and "handleSend_try P net m s = (c, s')"
  shows "\<exists>new. conversationHistory s' = JArr (msgs @ new)"
proof -
  from dispatch_array [OF assms(1), of P net m] obtain rq where
    d: "dispatch P net m s = (await_reply P net, s\<lparr>requests := requests s @ [rq]\<rparr>)"
    by blast
  let ?s1 = "s\<lparr>requests := requests s @ [rq]\<rparr>"
  from assms(1) have h1: "conversationHistory ?s1 = JArr msgs" by simp
  show ?thesis
  proof (cases "await_reply P net")
    case (Inl e)
    with assms(2) d have "handleSend_catch P e ?s1 = (c, s')" by (simp add: handleSend_try_def)
    from handleSend_catch_history [OF h1 this] show ?thesis by blast
  next
    case (Inr response)
    obtain c2 s2 where
      a: "addMessage P (js ''assistant'') response (removeTypingIndicator ?s1) = (c2, s2)"
      by force
    from h1 have "conversationHistory (removeTypingIndicator ?s1) = JArr msgs"
      by (simp add: removeTypingIndicator_def)
    from addMessage_history [OF this a]
    have h2: "conversationHistory s2 = JArr (msgs @ [mk_message (js ''assistant'') response])" .
    show ?thesis
    proof (cases c2)
      case Returned
      with assms(2) d Inr a have "s' = s2" by (simp add: handleSend_try_def)
      with h2 show ?thesis by blast
    next
      case (Threw e)
      with assms(2) d Inr a have "handleSend_catch P e s2 = (c, s')"
        by (simp add: handleSend_try_def)
      from handleSend_catch_history [OF h2 this] show ?thesis by auto
    qed
  qed
qed

lemma handleSend_history:
  assumes "handleSend P net s = (c, s')"
  shows "conversationHistory s' = conversationHistory s \<or>
         (\<exists>old new. conversationHistory s = JArr old \<and> conversationHistory s' = JArr (old @ new))"
proof (cases "trim (chatInput s) = []")
  case True
  with assms show ?thesis by (simp add: handleSend_blank)
next
  case False
  from False assms show ?thesis
  proof (cases rule: handleSend_nonblank_cases)
    case (early e)
    show ?thesis
    proof (cases "\<exists>msgs. conversationHistory s = JArr msgs")
      case True
      then obtain msgs where m: "conversationHistory s = JArr msgs" by blast
      from addMessage_history [OF m early(2)] m show ?thesis by blast
    next
      case False
      with early(2) have "s' = s" by (simp add: addMessage_not_array)
      then show ?thesis by simp
    qed
  next
    case (sent s1 s2 rq)
    from addMessage_Returned_array [OF sent(1)] obtain old where
      old: "conversationHistory s = JArr old" by blast
    from addMessage_history [OF old sent(1)]
    have "conversationHistory (showTypingIndicator (s1\<lparr>chatInput := []\<rparr>)) =
            JArr (old @ [mk_message (js ''user'') (JStr (trim (chatInput s)))])"
      by (simp add: showTypingIndicator_def)
    from handleSend_try_history [OF this sent(3)] obtain new where
      "conversationHistory s2 =
         JArr ((old @ [mk_message (js ''user'') (JStr (trim (chatInput s)))]) @ new)"
      by blast
    with sent(6) have "conversationHistory s' =
         JArr (old @ (mk_message (js ''user'') (JStr (trim (chatInput s))) # new))"
      by (cases c) simp_all
    with old show ?thesis by blast
  qed
qed

text \<open>The requests a send has posted.\<close>

lemma handleSend_requests_early:
  assumes "trim (chatInput s) \<noteq> []"
    and "addMessage P (js ''user'') (JStr (trim (chatInput s))) s = (Threw e, s1)"
  shows "requests (snd (handleSend P net s)) = requests s"
proof -
  from addMessage_frame [OF assms(2)] have "requests s1 = requests s" by auto
  with handleSend_first_append_throws [OF assms] show ?thesis by simp
qed

lemma handleSend_requests_sent:
  assumes "trim (chatInput s) \<noteq> []"
    and "addMessage P (js ''user'') (JStr (trim (chatInput s))) s = (Returned, s1)"
  shows "requests (snd (handleSend P net s)) =
           requests (snd (dispatch P net (trim (chatInput s))
                            (showTypingIndicator (s1\<lparr>chatInput := []\<rparr>))))"
proof -
  obtain c s' where hs: "handleSend P net s = (c, s')" by force
  from assms(1) hs show ?thesis
  proof (cases rule: handleSend_nonblank_cases)
    case (early e)
    with assms(2) show ?thesis by simp
  next
    case (sent s1' s2 rq)
    with assms(2) have "s1' = s1" by simp
    with sent hs show ?thesis by (cases c) simp_all
  qed
qed

lemma first_append_keeps:
  assumes "addMessage P role content s = (c, s1)"
  shows "currentAction (showTypingIndicator (s1\<lparr>chatInput := []\<rparr>)) = currentAction s"
    and "requests (showTypingIndicator (s1\<lparr>chatInput := []\<rparr>)) = requests s"
  using addMessage_frame [OF assms] by (auto simp: showTypingIndicator_def)

lemma send_in_debug_mode:
  assumes "currentAction s = Debug" and "trim (chatInput s) \<noteq> []"
    and "addMessage P (js ''user'') (JStr (trim (chatInput s))) s = (Returned, s1)"
  shows "requests (snd (handleSend P net s)) =
           requests s @ [\<lparr>url = API_BASE @ js ''/debug'',
              body = JSON_stringify P (JObj [(js ''code'', JStr (trim (chatInput s)))])\<rparr>]"
  using first_append_keeps [OF assms(3)] assms(1)
  by (simp add: handleSend_requests_sent [OF assms(2,3)] dispatch_Debug fetch_post_def)

lemma send_in_explain_mode:
  assumes "currentAction s = Explain" and "trim (chatInput s) \<noteq> []"
    and "addMessage P (js ''user'') (JStr (trim (chatInput s))) s = (Returned, s1)"
  shows "requests (snd (handleSend P net s)) =
           requests s @ [\<lparr>url = API_BASE @ js ''/explain'',
              body = JSON_stringify P (JObj [(js ''code'', JStr (trim (chatInput s)))])\<rparr>]"
  using first_append_keeps [OF assms(3)] assms(1)
  by (simp add: handleSend_requests_sent [OF assms(2,3)] dispatch_Explain fetch_post_def)

lemma send_in_generate_mode:
  assumes "currentAction s = Generate" and "trim (chatInput s) \<noteq> []"
    and "addMessage P (js ''user'') (JStr (trim (chatInput s))) s = (Returned, s1)"
  shows "requests (snd (handleSend P net s)) =
           requests s @ [\<lparr>url = API_BASE @ js ''/generate'',
              body = JSON_stringify P (JObj [(js ''spec'', JStr (trim (chatInput s)))])\<rparr>]"
  using first_append_keeps [OF assms(3)] assms(1)
  by (simp add: handleSend_requests_sent [OF assms(2,3)] dispatch_Generate fetch_post_def)

lemma send_in_chat_mode:
  assumes "currentAction s = Chat" and "trim (chatInput s) \<noteq> []"
    and "addMessage P (js ''user'') (JStr (trim (chatInput s))) s = (Returned, s1)"
    and "conversationHistory s = JArr prior"
  shows "requests (snd (handleSend P net s)) =
           requests s @ [\<lparr>url = API_BASE @ js ''/chat'',
              body = JSON_stringify P (chat_payload (trim (chatInput s)) (JArr prior))\<rparr>]"
proof -
  let ?t = "showTypingIndicator (s1\<lparr>chatInput := []\<rparr>)"
  from addMessage_history [OF assms(4,3)]
  have "conversationHistory ?t = JArr (prior @ [mk_message (js ''user'') (JStr (trim (chatInput s)))])"
    by (simp add: showTypingIndicator_def)
  moreover from first_append_keeps [OF assms(3)] assms(1)
  have "currentAction ?t = Chat" and "requests ?t = requests s" by simp_all
  ultimately show ?thesis
    by (simp add: handleSend_requests_sent [OF assms(2,3)] dispatch_Chat fetch_post_def)
qed

text \<open>The two parts of a send, run one after the other, are the send.\<close>

lemma handleSend_try_settle:
  "handleSend_try P net message s =
     (case dispatch P net message s of (r, s1) \<Rightarrow> handleSend_settle P r s1)"
  by (simp add: handleSend_try_def handleSend_settle_def split: prod.splits sum.splits)

lemma handleSend_split:
  "handleSend P net s =
     (case handleSend_begin P net s of
        (Inl c, s1) \<Rightarrow> (c, s1)
      | (Inr r, s1) \<Rightarrow> handleSend_resume P r s1)"
  by (simp add: handleSend_def handleSend_begin_def handleSend_resume_def handleSend_try_settle
        Let_def split: prod.splits completion.splits sum.splits)

text \<open>Unfolding the model on a concrete input.\<close>

lemmas model_defs =
  step_def handleSend_def handleSend_try_def handleSend_catch_def dispatch_def
  handleChatRequest_def handleDebugRequest_def handleExplainRequest_def
  handleGenerateRequest_def await_reply_def fetch_post_def chat_payload_def
  addMessage_def saveConversation_def loadConversation_def startNewChat_def
  renderMessages_def render_message_def interpolate_def showTypingIndicator_def
  removeTypingIndicator_def closeSidebar_def mk_message_def
  initial_state_def storage_key_def API_BASE_def trim_def is_js_whitespace_def js_def
  example_platform_def example_marked_def example_parse_def example_corpus_def quote_def
  handleSend_begin_def handleSend_resume_def handleSend_settle_def
  overlap_in_flight_def overlap_mode_clicked_def overlap_answered_def overlap_next_send_def
  Let_def

text \<open>What a successful \<open>addMessage\<close> has written and rendered.\<close>

lemma addMessage_Returned_store:
  assumes "conversationHistory s = JArr msgs"
    and "addMessage P role content s = (Returned, s1)"
  shows "localStorage s1 =
           (localStorage s)(storage_key \<mapsto>
              JSON_stringify P (JArr (msgs @ [mk_message role content])))"
    and "\<forall>m\<in>set (msgs @ [mk_message role content]). \<exists>node. render_message P m = Inr node"
proof -
  let ?h = "JArr (msgs @ [mk_message role content])"
  let ?text = "JSON_stringify P ?h"
  let ?s0 = "s\<lparr>conversationHistory := ?h,
                localStorage := (localStorage s)(storage_key \<mapsto> ?text)\<rparr>"
  have none: "setItem_error P (localStorage s) storage_key ?text = None"
  proof (cases "setItem_error P (localStorage s) storage_key ?text")
    case (Some e)
    with assms show ?thesis by (simp add: addMessage_array)
  qed simp
  with assms have r: "renderMessages P ?s0 = (Returned, s1)" by (simp add: addMessage_array)
  from renderMessages_frame [OF r] show "localStorage s1 =
           (localStorage s)(storage_key \<mapsto> ?text)" by auto
  have "conversationHistory ?s0 = ?h" by simp
  from renderMessages_Returned_iff [OF this, of P] r
  show "\<forall>m\<in>set (msgs @ [mk_message role content]). \<exists>node. render_message P m = Inr node"
    by simp
qed

lemma saveConversation_Returned_store:
  assumes "saveConversation P s = (Returned, s1)"
  shows "localStorage s1 storage_key = Some (JSON_stringify P (conversationHistory s))"
proof (cases "setItem_error P (localStorage s) storage_key
                (JSON_stringify P (conversationHistory s))")
  case (Some e)
  with assms show ?thesis by (simp add: saveConversation_def)
next
  case None
  with assms show ?thesis by (auto simp: saveConversation_def)
qed

text \<open>Loading a stored text that parses.\<close>

lemma loadConversation_parsed:
  assumes "localStorage s storage_key = Some saved" and "saved \<noteq> []"
    and "JSON_parse P saved = Inr v"
  shows "fst (loadConversation P s) = Returned"
    and "conversationHistory (snd (loadConversation P s)) = v"
    and "console (snd (loadConversation P s)) =
           (case fst (renderMessages P (s\<lparr>conversationHistory := v\<rparr>)) of
              Returned \<Rightarrow> console s
            | Threw e \<Rightarrow> console s @ [e])"
proof -
  obtain c2 s2 where r: "renderMessages P (s\<lparr>conversationHistory := v\<rparr>) = (c2, s2)" by force
  from renderMessages_frame [OF r] obtain nodes where
    s2: "s2 = s\<lparr>conversationHistory := v, chatMessages := nodes\<rparr>" by auto
  from assms r s2 show "fst (loadConversation P s) = Returned"
    by (cases c2) (simp_all add: loadConversation_def)
  from assms r s2 show "conversationHistory (snd (loadConversation P s)) = v"
    by (cases c2) (simp_all add: loadConversation_def)
  from assms r s2 show "console (snd (loadConversation P s)) =
           (case fst (renderMessages P (s\<lparr>conversationHistory := v\<rparr>)) of
              Returned \<Rightarrow> console s
            | Threw e \<Rightarrow> console s @ [e])"
    by (cases c2) (simp_all add: loadConversation_def)
qed

lemma restore_from_store:
  assumes "store storage_key = Some (JSON_stringify P h)"
    and "JSON_parse P (JSON_stringify P h) = Inr h"
    and "JSON_stringify P h \<noteq> []"
  shows "fst (loadConversation P (initial_state store width)) = Returned \<and>
         conversationHistory (snd (loadConversation P (initial_state store width))) = h"
proof -
  from assms(1) have "localStorage (initial_state store width) storage_key =
                        Some (JSON_stringify P h)"
    by (simp add: initial_state_def)
  from loadConversation_parsed(1,2) [OF this assms(3,2)] show ?thesis by simp
qed

section \<open>Claims\<close>

text \<open>
  C1. In chat mode, whenever a send posts a request, the request goes to \<open>/chat\<close> and
  its body is the serialized object with two fields: \<open>prompt\<close>, the trimmed input, and
  \<open>history\<close>, the conversation history as it stands at that moment with its last
  element removed. That is the history from before the send, without the user message the
  send has just appended.
\<close>

theorem chat_history_excludes_prompt:
  assumes "currentAction s = Chat"
    and "handleSend P net s = (c, s')"
    and "requests s' \<noteq> requests s"
  shows "\<exists>prior rest.
           conversationHistory s = JArr prior \<and>
           requests s' = requests s @
             [\<lparr>url = API_BASE @ js ''/chat'',
               body = JSON_stringify P
                 (JObj [(js ''prompt'', JStr (trim (chatInput s))),
                        (js ''history'',
                         JArr (butlast (prior @
                           [mk_message (js ''user'') (JStr (trim (chatInput s)))])))])\<rparr>] \<and>
           butlast (prior @ [mk_message (js ''user'') (JStr (trim (chatInput s)))]) = prior \<and>
           conversationHistory s' =
             JArr (prior @ mk_message (js ''user'') (JStr (trim (chatInput s))) # rest)"
proof -
  have nb: "trim (chatInput s) \<noteq> []"
  proof
    assume "trim (chatInput s) = []"
    with assms(2) have "s' = s" by (simp add: handleSend_blank)
    with assms(3) show False by simp
  qed
  let ?u = "mk_message (js ''user'') (JStr (trim (chatInput s)))"
  from nb assms(2) show ?thesis
  proof (cases rule: handleSend_nonblank_cases)
    case (early e)
    from addMessage_frame [OF early(2)] have "requests s' = requests s" by auto
    with assms(3) show ?thesis by simp
  next
    case (sent s1 s2 rq)
    from addMessage_Returned_array [OF sent(1)] obtain prior where
      prior: "conversationHistory s = JArr prior" by blast
    from send_in_chat_mode [OF assms(1) nb sent(1) prior, of net] assms(2)
    have r: "requests s' = requests s @
             [\<lparr>url = API_BASE @ js ''/chat'',
               body = JSON_stringify P (chat_payload (trim (chatInput s)) (JArr prior))\<rparr>]"
      by simp
    from addMessage_history [OF prior sent(1)]
    have "conversationHistory (showTypingIndicator (s1\<lparr>chatInput := []\<rparr>)) = JArr (prior @ [?u])"
      by (simp add: showTypingIndicator_def)
    from handleSend_try_history [OF this sent(3)] obtain rest where
      "conversationHistory s2 = JArr ((prior @ [?u]) @ rest)" by blast
    with sent(6) have "conversationHistory s' = JArr (prior @ ?u # rest)"
      by (cases c) simp_all
    with prior r show ?thesis by (simp add: chat_payload_def)
  qed
qed

text \<open>An instance: one earlier message, the input \<open>hi\<close>, a reply from the server.\<close>

theorem chat_history_excludes_prompt_witness:
  "currentAction ((initial_state Map.empty 1024)
      \<lparr>conversationHistory := JArr [mk_message (js ''user'') (JStr (js ''one''))],
       chatInput := js ''hi''\<rparr>) = Chat \<and>
   requests (snd (handleSend (example_platform 1000)
      (Response 200 (Inr (JObj [(js ''reply'', JStr (js ''hello''))])))
      ((initial_state Map.empty 1024)
        \<lparr>conversationHistory := JArr [mk_message (js ''user'') (JStr (js ''one''))],
         chatInput := js ''hi''\<rparr>))) =
     [\<lparr>url = API_BASE @ js ''/chat'',
       body = example_stringify
         (JObj [(js ''prompt'', JStr (js ''hi'')),
                (js ''history'', JArr [mk_message (js ''user'') (JStr (js ''one''))])])\<rparr>]"
proof -
  let ?P = "example_platform 1000"
  let ?net = "Response 200 (Inr (JObj [(js ''reply'', JStr (js ''hello''))]))"
  let ?s = "(initial_state Map.empty 1024)
        \<lparr>conversationHistory := JArr [mk_message (js ''user'') (JStr (js ''one''))],
         chatInput := js ''hi''\<rparr>"
  have h1: "currentAction ?s = Chat" by (simp add: initial_state_def)
  have h2: "handleSend ?P ?net ?s = (fst (handleSend ?P ?net ?s), snd (handleSend ?P ?net ?s))"
    by simp
  have h3: "requests (snd (handleSend ?P ?net ?s)) \<noteq> requests ?s"
    by (simp add: model_defs)
  have t: "trim (js ''hi'') = js ''hi''" by (simp add: trim_def is_js_whitespace_def js_def)
  have p: "JSON_stringify ?P = example_stringify" by (simp add: example_platform_def)
  from chat_history_excludes_prompt [OF h1 h2 h3] h1 show ?thesis
    by (auto simp: t p initial_state_def)
qed

text \<open>
  C2 (amended). For each of the four handlers, when the response has a success status and
  its body parses to an object, the handler returns the value of the body's \<open>reply\<close>
  property, whatever that value is, and \<open>undefined\<close> when the property is absent. The
  body is not checked: no handler fails on a missing \<open>reply\<close>.
\<close>

theorem reply_returned_unchecked:
  assumes "200 \<le> st" and "st \<le> 299"
  shows "fst (handleDebugRequest P (Response st (Inr (JObj props))) m s) =
           Inr (case map_of props (js ''reply'') of Some v \<Rightarrow> v | None \<Rightarrow> JUndefined) \<and>
         fst (handleExplainRequest P (Response st (Inr (JObj props))) m s) =
           Inr (case map_of props (js ''reply'') of Some v \<Rightarrow> v | None \<Rightarrow> JUndefined) \<and>
         fst (handleGenerateRequest P (Response st (Inr (JObj props))) m s) =
           Inr (case map_of props (js ''reply'') of Some v \<Rightarrow> v | None \<Rightarrow> JUndefined) \<and>
         fst (handleChatRequest P (Response st (Inr (JObj props))) m
                (s\<lparr>conversationHistory := JArr h\<rparr>)) =
           Inr (case map_of props (js ''reply'') of Some v \<Rightarrow> v | None \<Rightarrow> JUndefined)"
  using assms
  by (simp add: handleDebugRequest_def handleExplainRequest_def handleGenerateRequest_def
        handleChatRequest_def await_reply_def)

text \<open>An instance: status 200 and a body with a \<open>reply\<close>.\<close>

theorem reply_returned_unchecked_witness:
  "(200::nat) \<le> 200 \<and> (200::nat) \<le> 299 \<and>
   fst (handleExplainRequest (example_platform 1000)
          (Response 200 (Inr (JObj [(js ''reply'', JStr (js ''hello''))]))) (js ''x'')
          (initial_state Map.empty 1024)) = Inr (JStr (js ''hello''))"
  using reply_returned_unchecked [where st = 200 and P = "example_platform 1000"
          and props = "[(js ''reply'', JStr (js ''hello''))]" and m = "js ''x''"
          and s = "initial_state Map.empty 1024" and h = "[]"]
  by simp

text \<open>
  C2 as stated fails: on a success response whose body is the empty object,
  \<open>handleDebugRequest\<close> returns \<open>undefined\<close>; it does not fail.
\<close>

theorem missing_reply_counterexample:
  "fst (handleDebugRequest (example_platform 1000) (Response 200 (Inr (JObj []))) (js ''x'')
          (initial_state Map.empty 1024)) = Inr JUndefined"
  by (simp add: handleDebugRequest_def await_reply_def)

text \<open>
  A send in mode \<open>debug\<close> in full, the case of an exception that leaves it included.
\<close>

lemma debug_send_outcome:
  assumes "currentAction s = Debug"
    and "trim (chatInput s) \<noteq> []"
    and "handleSend P net s = (c, s')"
  shows "(c = Returned \<longrightarrow>
            requests s' = requests s @
              [\<lparr>url = API_BASE @ js ''/debug'',
                body = JSON_stringify P (JObj [(js ''code'', JStr (trim (chatInput s)))])\<rparr>] \<and>
            currentAction s' = Chat) \<and>
         (c \<noteq> Returned \<longrightarrow>
            currentAction s' = Debug \<and>
            (requests s' = requests s \<or>
             requests s' = requests s @
              [\<lparr>url = API_BASE @ js ''/debug'',
                body = JSON_stringify P (JObj [(js ''code'', JStr (trim (chatInput s)))])\<rparr>]))"
  using assms(2,3)
proof (cases rule: handleSend_nonblank_cases)
  case (early e)
  from addMessage_frame [OF early(2)] obtain h store nodes where
    "s' = s\<lparr>conversationHistory := h, chatMessages := nodes, localStorage := store\<rparr>"
    by blast
  with early(1) assms(1) show ?thesis by simp
next
  case (sent s1 s2 rq)
  let ?t = "showTypingIndicator (s1\<lparr>chatInput := []\<rparr>)"
  from addMessage_frame [OF sent(1)] assms(1) have "currentAction ?t = Debug"
    by (auto simp: showTypingIndicator_def)
  from dispatch_Debug [OF this, of P net "trim (chatInput s)"] sent(2)
  have "?t\<lparr>requests := requests s @ [rq]\<rparr> =
        fetch_post (API_BASE @ js ''/debug'')
          (JSON_stringify P (JObj [(js ''code'', JStr (trim (chatInput s)))])) ?t"
    by simp
  then have "requests (?t\<lparr>requests := requests s @ [rq]\<rparr>) =
        requests (fetch_post (API_BASE @ js ''/debug'')
          (JSON_stringify P (JObj [(js ''code'', JStr (trim (chatInput s)))])) ?t)"
    by simp
  moreover from addMessage_frame [OF sent(1)] have "requests ?t = requests s"
    by (auto simp: showTypingIndicator_def)
  ultimately have rq: "requests s @ [rq] = requests s @
      [\<lparr>url = API_BASE @ js ''/debug'',
        body = JSON_stringify P (JObj [(js ''code'', JStr (trim (chatInput s)))])\<rparr>]"
    by (simp add: fetch_post_def)
  show ?thesis
  proof (cases c)
    case Returned
    with sent(4,6) rq show ?thesis by simp
  next
    case (Threw e)
    with sent(4,5,6) rq assms(1) show ?thesis by simp
  qed
qed

text \<open>
  C3 (amended). A send in mode \<open>debug\<close> with an input that is not blank issues at most
  one request, and that request goes to the debug endpoint with the trimmed input as
  \<open>code\<close>. When the send returns to its caller, whether the request succeeded or
  failed, exactly one request has been issued and the pending action is \<open>chat\<close>.
\<close>

theorem debug_send_one_request_then_chat:
  assumes "currentAction s = Debug"
    and "trim (chatInput s) \<noteq> []"
    and "handleSend P net s = (c, s')"
  shows "(requests s' = requests s \<or>
          requests s' = requests s @
            [\<lparr>url = API_BASE @ js ''/debug'',
              body = JSON_stringify P (JObj [(js ''code'', JStr (trim (chatInput s)))])\<rparr>]) \<and>
         (c = Returned \<longrightarrow>
            requests s' = requests s @
              [\<lparr>url = API_BASE @ js ''/debug'',
                body = JSON_stringify P (JObj [(js ''code'', JStr (trim (chatInput s)))])\<rparr>] \<and>
            currentAction s' = Chat)"
  using debug_send_outcome [OF assms] by (cases c) simp_all

text \<open>
  An instance: the server answers 500; the send returns, one request went to
  \<open>/debug\<close> and the pending action is \<open>chat\<close> again.
\<close>

theorem debug_send_one_request_then_chat_witness:
  "currentAction ((initial_state Map.empty 1024)\<lparr>currentAction := Debug, chatInput := js ''x''\<rparr>)
     = Debug \<and>
   trim (chatInput ((initial_state Map.empty 1024)\<lparr>currentAction := Debug, chatInput := js ''x''\<rparr>))
     \<noteq> [] \<and>
   fst (handleSend (example_platform 1000) (Response 500 (Inr JNull))
          ((initial_state Map.empty 1024)\<lparr>currentAction := Debug, chatInput := js ''x''\<rparr>))
     = Returned \<and>
   requests (snd (handleSend (example_platform 1000) (Response 500 (Inr JNull))
          ((initial_state Map.empty 1024)\<lparr>currentAction := Debug, chatInput := js ''x''\<rparr>)))
     = [\<lparr>url = API_BASE @ js ''/debug'',
         body = example_stringify (JObj [(js ''code'', JStr (js ''x''))])\<rparr>] \<and>
   currentAction (snd (handleSend (example_platform 1000) (Response 500 (Inr JNull))
          ((initial_state Map.empty 1024)\<lparr>currentAction := Debug, chatInput := js ''x''\<rparr>)))
     = Chat"
proof -
  let ?P = "example_platform 1000"
  let ?net = "Response 500 (Inr JNull)"
  let ?s = "(initial_state Map.empty 1024)\<lparr>currentAction := Debug, chatInput := js ''x''\<rparr>"
  have h1: "currentAction ?s = Debug" by simp
  have h2: "trim (chatInput ?s) \<noteq> []" by (simp add: trim_def is_js_whitespace_def js_def)
  have r: "fst (handleSend ?P ?net ?s) = Returned" by (simp add: model_defs dec.simps)
  then have h3: "handleSend ?P ?net ?s = (Returned, snd (handleSend ?P ?net ?s))"
    by (metis prod.collapse)
  have t: "trim (js ''x'') = js ''x''" by (simp add: trim_def is_js_whitespace_def js_def)
  have p: "JSON_stringify ?P = example_stringify" by (simp add: example_platform_def)
  from debug_send_one_request_then_chat [OF h1 h2 h3] h1 h2 r show ?thesis
    by (simp add: t p initial_state_def)
qed

text \<open>
  C3 as stated fails, in two ways. With a store that refuses every write, the first
  \<open>addMessage\<close>, outside \<open>try\<close>, throws: no request is issued and the pending action
  stays \<open>debug\<close>. With a store that has room, a server answer that lacks \<open>reply\<close>
  and a renderer that rejects \<open>undefined\<close>, as \<open>marked\<close> does, the request is issued,
  the reply is appended, its rendering throws inside \<open>try\<close> and again inside
  \<open>catch\<close>, and the pending action stays \<open>debug\<close>.
\<close>

theorem debug_send_counterexample:
  "requests (snd (step (example_platform 0)
      (DebugClick (Response 200 (Inr (JObj [(js ''reply'', JStr (js ''ok''))]))))
      ((initial_state Map.empty 1024)\<lparr>chatInput := js ''x''\<rparr>))) = [] \<and>
   currentAction (snd (step (example_platform 0)
      (DebugClick (Response 200 (Inr (JObj [(js ''reply'', JStr (js ''ok''))]))))
      ((initial_state Map.empty 1024)\<lparr>chatInput := js ''x''\<rparr>))) = Debug \<and>
   requests (snd (step (example_platform 1000)
      (DebugClick (Response 200 (Inr (JObj []))))
      ((initial_state Map.empty 1024)\<lparr>chatInput := js ''x''\<rparr>))) =
     [\<lparr>url = API_BASE @ js ''/debug'',
       body = example_stringify (JObj [(js ''code'', JStr (js ''x''))])\<rparr>] \<and>
   conversationHistory (snd (step (example_platform 1000)
      (DebugClick (Response 200 (Inr (JObj []))))
      ((initial_state Map.empty 1024)\<lparr>chatInput := js ''x''\<rparr>))) =
     JArr [mk_message (js ''user'') (JStr (js ''x'')),
           mk_message (js ''assistant'') JUndefined,
           mk_message (js ''assistant'')
             (JStr (js ''Error: marked(): input parameter is not a string''))] \<and>
   currentAction (snd (step (example_platform 1000)
      (DebugClick (Response 200 (Inr (JObj []))))
      ((initial_state Map.empty 1024)\<lparr>chatInput := js ''x''\<rparr>))) = Debug"
  by (simp add: model_defs)

text \<open>
  A send whose request fails, in full: what is appended, and exactly when the send returns.
\<close>

lemma failed_request_outcome:
  assumes "\<not> ok net"
    and "handleSend P net s = (c, s')"
    and "requests s' \<noteq> requests s"
  shows "\<exists>old detail.
           detail = (case net of Rejected r \<Rightarrow> error_message r
                     | Response st b \<Rightarrow> js ''HTTP error! status: '' @ dec st) \<and>
           conversationHistory s = JArr old \<and>
           conversationHistory s' =
             JArr (old @ [mk_message (js ''user'') (JStr (trim (chatInput s))),
                          mk_message (js ''assistant'') (JStr (js ''Error: '' @ detail))]) \<and>
           (c = Returned \<longleftrightarrow>
              setItem_error P
                ((localStorage s)(storage_key \<mapsto> JSON_stringify P
                   (JArr (old @ [mk_message (js ''user'') (JStr (trim (chatInput s)))]))))
                storage_key
                (JSON_stringify P
                   (JArr (old @ [mk_message (js ''user'') (JStr (trim (chatInput s))),
                                 mk_message (js ''assistant'') (JStr (js ''Error: '' @ detail))])))
                = None \<and>
              (\<exists>html. marked_parse P (JStr (js ''Error: '' @ detail)) = Inr html))"
proof -
  have nb: "trim (chatInput s) \<noteq> []"
  proof
    assume "trim (chatInput s) = []"
    with assms(2) have "s' = s" by (simp add: handleSend_blank)
    with assms(3) show False by simp
  qed
  let ?u = "mk_message (js ''user'') (JStr (trim (chatInput s)))"
  from nb assms(2) show ?thesis
  proof (cases rule: handleSend_nonblank_cases)
    case (early e)
    from addMessage_frame [OF early(2)] have "requests s' = requests s" by auto
    with assms(3) show ?thesis by simp
  next
    case (sent s1 s2 rq)
    let ?t = "showTypingIndicator (s1\<lparr>chatInput := []\<rparr>)"
    let ?t1 = "?t\<lparr>requests := requests s @ [rq]\<rparr>"
    from addMessage_Returned_array [OF sent(1)] obtain old where
      old: "conversationHistory s = JArr old" by blast
    from await_reply_failed [OF assms(1), of P] obtain e where
      e: "await_reply P net = Inl e"
      and msg: "error_message e =
               (case net of Rejected r \<Rightarrow> error_message r
                | Response st b \<Rightarrow> js ''HTTP error! status: '' @ dec st)"
      by blast
    let ?a = "mk_message (js ''assistant'') (JStr (js ''Error: '' @ error_message e))"
    let ?text = "JSON_stringify P (JArr (old @ [?u, ?a]))"
    let ?store1 = "(localStorage s)(storage_key \<mapsto> JSON_stringify P (JArr (old @ [?u])))"
    from addMessage_history [OF old sent(1)]
    have h1: "conversationHistory s1 = JArr (old @ [?u])" .
    from addMessage_Returned_store [OF old sent(1)]
    have st1: "localStorage s1 = ?store1"
      and rend: "\<forall>m\<in>set (old @ [?u]). \<exists>node. render_message P m = Inr node"
      by simp_all
    let ?r = "removeTypingIndicator ?t1"
    have hr: "conversationHistory ?r = JArr (old @ [?u])"
      using h1 by (simp add: removeTypingIndicator_def showTypingIndicator_def)
    have sr: "localStorage ?r = ?store1"
      using st1 by (simp add: removeTypingIndicator_def showTypingIndicator_def)
    from sent(2,3) e have am: "addMessage P (js ''assistant'')
        (JStr (js ''Error: '' @ error_message e)) ?r = (c, s2)"
      by (simp add: handleSend_try_def handleSend_catch_def)
    from addMessage_history [OF hr am]
    have h2: "conversationHistory s2 = JArr (old @ [?u, ?a])" by simp
    with sent(6) have hfin: "conversationHistory s' = JArr (old @ [?u, ?a])"
      by (cases c) simp_all
    have ciff: "c = Returned \<longleftrightarrow>
        setItem_error P ?store1 storage_key ?text = None \<and>
        (\<exists>html. marked_parse P (JStr (js ''Error: '' @ error_message e)) = Inr html)"
    proof (cases "setItem_error P ?store1 storage_key ?text")
      case (Some x)
      with am hr sr show ?thesis by (auto simp: addMessage_array [OF hr])
    next
      case None
      let ?s0 = "?r\<lparr>conversationHistory := JArr ((old @ [?u]) @ [?a]),
                     localStorage := ?store1(storage_key \<mapsto> ?text)\<rparr>"
      from am None sr have r: "renderMessages P ?s0 = (c, s2)"
        by (simp add: addMessage_array [OF hr])
      have "conversationHistory ?s0 = JArr ((old @ [?u]) @ [?a])" by simp
      from renderMessages_Returned_iff [OF this, of P] r
      have "c = Returned \<longleftrightarrow>
              (\<forall>m\<in>set ((old @ [?u]) @ [?a]). \<exists>node. render_message P m = Inr node)"
        by simp
      also have "\<dots> \<longleftrightarrow> (\<exists>node. render_message P ?a = Inr node)"
        using rend by auto
      also have "\<dots> \<longleftrightarrow>
          (\<exists>html. marked_parse P (JStr (js ''Error: '' @ error_message e)) = Inr html)"
        by (auto simp: render_message_mk_message split: sum.splits)
      finally show ?thesis using None by simp
    qed
    from old hfin ciff msg show ?thesis by simp
  qed
qed

text \<open>
  C4 (amended). For every send whose request fails (the fetch is rejected, or the status
  is outside 200 to 299), exactly one assistant message \<open>Error: \<close> followed by the
  error's message is appended, after the user message, and the messages that were there
  before are unchanged. When the storage write and the rendering of that message go
  through, the send returns to its caller.
\<close>

theorem failed_request_appends_error:
  assumes "\<not> ok net"
    and "handleSend P net s = (c, s')"
    and "requests s' \<noteq> requests s"
  shows "\<exists>old detail.
           detail = (case net of Rejected r \<Rightarrow> error_message r
                     | Response st b \<Rightarrow> js ''HTTP error! status: '' @ dec st) \<and>
           conversationHistory s = JArr old \<and>
           conversationHistory s' =
             JArr (old @ [mk_message (js ''user'') (JStr (trim (chatInput s))),
                          mk_message (js ''assistant'') (JStr (js ''Error: '' @ detail))]) \<and>
           (setItem_error P
              ((localStorage s)(storage_key \<mapsto> JSON_stringify P
                 (JArr (old @ [mk_message (js ''user'') (JStr (trim (chatInput s)))]))))
              storage_key
              (JSON_stringify P
                 (JArr (old @ [mk_message (js ''user'') (JStr (trim (chatInput s))),
                               mk_message (js ''assistant'') (JStr (js ''Error: '' @ detail))])))
              = None \<and>
            (\<exists>html. marked_parse P (JStr (js ''Error: '' @ detail)) = Inr html) \<longrightarrow>
            c = Returned)"
  using failed_request_outcome [OF assms] by blast

text \<open>An instance: the server answers 500 and the store has room.\<close>

theorem failed_request_appends_error_witness:
  "\<not> ok (Response 500 (Inr JNull)) \<and>
   fst (handleSend (example_platform 1000) (Response 500 (Inr JNull))
          ((initial_state Map.empty 1024)\<lparr>chatInput := js ''x''\<rparr>)) = Returned \<and>
   conversationHistory (snd (handleSend (example_platform 1000) (Response 500 (Inr JNull))
          ((initial_state Map.empty 1024)\<lparr>chatInput := js ''x''\<rparr>))) =
     JArr [mk_message (js ''user'') (JStr (js ''x'')),
           mk_message (js ''assistant'') (JStr (js ''Error: HTTP error! status: 500''))]"
proof -
  let ?P = "example_platform 1000"
  let ?net = "Response 500 (Inr JNull)"
  let ?s = "(initial_state Map.empty 1024)\<lparr>chatInput := js ''x''\<rparr>"
  have h1: "\<not> ok ?net" by simp
  have r: "fst (handleSend ?P ?net ?s) = Returned" by (simp add: model_defs dec.simps)
  then have h2: "handleSend ?P ?net ?s = (Returned, snd (handleSend ?P ?net ?s))"
    by (metis prod.collapse)
  have h3: "requests (snd (handleSend ?P ?net ?s)) \<noteq> requests ?s"
    by (simp add: model_defs dec.simps)
  have t: "trim (js ''x'') = js ''x''" by (simp add: trim_def is_js_whitespace_def js_def)
  have d: "js ''Error: '' @ js ''HTTP error! status: '' @ dec 500 =
           js ''Error: HTTP error! status: 500''"
    by (simp add: js_def dec.simps)
  from failed_request_appends_error [OF h1 h2 h3] h1 r show ?thesis
    by (auto simp: t d initial_state_def)
qed

text \<open>
  C4 as stated fails: the server answers 500, and the store has room for the history with
  the user message but not with the error message added; the request was issued, and a
  \<open>QuotaExceededError\<close> leaves \<open>handleSend\<close>.
\<close>

theorem failed_request_counterexample:
  "\<not> ok (Response 500 (Inr JNull)) \<and>
   requests (snd (handleSend (example_platform 60) (Response 500 (Inr JNull))
          ((initial_state Map.empty 1024)\<lparr>chatInput := js ''x''\<rparr>))) =
     [\<lparr>url = API_BASE @ js ''/chat'',
       body = example_stringify (chat_payload (js ''x'') (JArr []))\<rparr>] \<and>
   fst (handleSend (example_platform 60) (Response 500 (Inr JNull))
          ((initial_state Map.empty 1024)\<lparr>chatInput := js ''x''\<rparr>)) =
     Threw (JsError (js ''QuotaExceededError'') (js ''The quota has been exceeded.''))"
  by (simp add: model_defs dec.simps)

text \<open>
  C5 (amended). \<open>loadConversation\<close> never throws to its caller. When the key is missing
  or holds the empty string it changes nothing and logs nothing. When the stored text does
  not parse it leaves the history as it was (empty at startup) and logs the parse error.
  When the stored text parses, an error is logged exactly when rendering the parsed value
  throws, and a parsed value that renders is the history from then on.
\<close>

theorem restore_never_throws:
  shows "fst (loadConversation P s) = Returned \<and>
         (localStorage s storage_key = None \<or> localStorage s storage_key = Some [] \<longrightarrow>
            loadConversation P s = (Returned, s)) \<and>
         (\<forall>saved e. localStorage s storage_key = Some saved \<and> saved \<noteq> [] \<and>
                    JSON_parse P saved = Inl e \<longrightarrow>
            loadConversation P s = (Returned, s\<lparr>console := console s @ [e]\<rparr>)) \<and>
         (\<forall>saved v. localStorage s storage_key = Some saved \<and> saved \<noteq> [] \<and>
                    JSON_parse P saved = Inr v \<longrightarrow>
            console (snd (loadConversation P s)) =
              (case fst (renderMessages P (s\<lparr>conversationHistory := v\<rparr>)) of
                 Returned \<Rightarrow> console s
               | Threw e \<Rightarrow> console s @ [e]) \<and>
            (fst (renderMessages P (s\<lparr>conversationHistory := v\<rparr>)) = Returned \<longrightarrow>
               conversationHistory (snd (loadConversation P s)) = v))"
proof -
  have a: "fst (loadConversation P s) = Returned"
    by (simp add: loadConversation_def
          split: option.splits sum.splits prod.splits completion.splits)
  have b: "localStorage s storage_key = None \<or> localStorage s storage_key = Some [] \<longrightarrow>
            loadConversation P s = (Returned, s)"
    by (auto simp: loadConversation_def)
  have c: "\<forall>saved e. localStorage s storage_key = Some saved \<and> saved \<noteq> [] \<and>
                    JSON_parse P saved = Inl e \<longrightarrow>
            loadConversation P s = (Returned, s\<lparr>console := console s @ [e]\<rparr>)"
    by (auto simp: loadConversation_def)
  have d: "console (snd (loadConversation P s)) =
              (case fst (renderMessages P (s\<lparr>conversationHistory := v\<rparr>)) of
                 Returned \<Rightarrow> console s
               | Threw e \<Rightarrow> console s @ [e]) \<and>
            (fst (renderMessages P (s\<lparr>conversationHistory := v\<rparr>)) = Returned \<longrightarrow>
               conversationHistory (snd (loadConversation P s)) = v)"
    if "localStorage s storage_key = Some saved" "saved \<noteq> []" "JSON_parse P saved = Inr v"
    for saved v
    using loadConversation_parsed(2,3) [OF that] by simp
  from a b c d show ?thesis by blast
qed

text \<open>An instance: a stored text that does not parse.\<close>

theorem restore_never_throws_witness:
  "loadConversation (example_platform 1000)
     (initial_state [storage_key \<mapsto> js ''{oops''] 1024) =
   (Returned,
    (initial_state [storage_key \<mapsto> js ''{oops''] 1024)
      \<lparr>console := [JsError (js ''SyntaxError'') (js ''Unexpected token'')]\<rparr>)"
proof -
  let ?P = "example_platform 1000"
  let ?s = "initial_state [storage_key \<mapsto> js ''{oops''] 1024"
  have k: "localStorage ?s storage_key = Some (js ''{oops'')" by (simp add: initial_state_def)
  have n: "js ''{oops'' \<noteq> []" by (simp add: js_def)
  have p: "JSON_parse ?P (js ''{oops'') =
             Inl (JsError (js ''SyntaxError'') (js ''Unexpected token''))"
    by (simp add: example_platform_def example_parse_def example_corpus_def mk_message_def
          quote_def js_def)
  have c: "console ?s = []" by (simp add: initial_state_def)
  from restore_never_throws [of ?P ?s] k n p have
    "loadConversation ?P ?s = (Returned, ?s\<lparr>console := console ?s @
        [JsError (js ''SyntaxError'') (js ''Unexpected token'')]\<rparr>)"
    by blast
  then show ?thesis by (simp only: c append_Nil)
qed

text \<open>
  C5 as stated fails: the stored text \<open>[true]\<close> parses, holds no message, and is the
  history after the load, not the empty history.
\<close>

theorem restore_malformed_counterexample:
  "conversationHistory (snd (loadConversation (example_platform 1000)
     (initial_state [storage_key \<mapsto> js ''[true]''] 1024))) = JArr [JBool True]"
  by (simp add: model_defs)




text \<open>
  C7. Let \<open>h\<close> be a history that the platform's JSON codec reproduces
  (\<open>JSON.parse(JSON.stringify(h))\<close> is \<open>h\<close>, and the text is not empty). After
  \<open>saveConversation\<close> has stored \<open>h\<close>, and likewise after an \<open>addMessage\<close> that
  returns with history \<open>h\<close>, a fresh page that runs \<open>loadConversation\<close> over that
  store has the history \<open>h\<close>, in the same order.
\<close>

theorem save_then_restore_identity:
  assumes "JSON_parse P (JSON_stringify P h) = Inr h"
    and "JSON_stringify P h \<noteq> []"
  shows "(conversationHistory s = h \<and> saveConversation P s = (Returned, s1) \<longrightarrow>
            fst (loadConversation P (initial_state (localStorage s1) width)) = Returned \<and>
            conversationHistory (snd (loadConversation P (initial_state (localStorage s1) width)))
              = h) \<and>
         (addMessage P role content s = (Returned, s2) \<and> conversationHistory s2 = h \<longrightarrow>
            fst (loadConversation P (initial_state (localStorage s2) width)) = Returned \<and>
            conversationHistory (snd (loadConversation P (initial_state (localStorage s2) width)))
              = h)"
proof (intro conjI impI)
  assume a: "conversationHistory s = h \<and> saveConversation P s = (Returned, s1)"
  then have "localStorage s1 storage_key = Some (JSON_stringify P h)"
    using saveConversation_Returned_store [of P s s1] by simp
  with assms restore_from_store [where store = "localStorage s1" and P = P and h = h
      and width = width]
  show "fst (loadConversation P (initial_state (localStorage s1) width)) = Returned"
    and "conversationHistory (snd (loadConversation P (initial_state (localStorage s1) width)))
           = h"
    by simp_all
next
  assume a: "addMessage P role content s = (Returned, s2) \<and> conversationHistory s2 = h"
  then have am: "addMessage P role content s = (Returned, s2)" by simp
  from addMessage_Returned_array [OF am] obtain msgs where
    m: "conversationHistory s = JArr msgs" by blast
  from addMessage_history [OF m am] a have "h = JArr (msgs @ [mk_message role content])"
    by simp
  with addMessage_Returned_store(1) [OF m am]
  have "localStorage s2 storage_key = Some (JSON_stringify P h)" by simp
  with assms restore_from_store [where store = "localStorage s2" and P = P and h = h
      and width = width]
  show "fst (loadConversation P (initial_state (localStorage s2) width)) = Returned"
    and "conversationHistory (snd (loadConversation P (initial_state (localStorage s2) width)))
           = h"
    by simp_all
qed

text \<open>An instance: a history of two messages.\<close>

theorem save_then_restore_identity_witness:
  "fst (saveConversation (example_platform 1000)
     ((initial_state Map.empty 1024)
        \<lparr>conversationHistory :=
           JArr [mk_message (js ''user'') (JStr (js ''hi'')),
                 mk_message (js ''assistant'') (JStr (js ''hello''))]\<rparr>)) = Returned \<and>
   conversationHistory (snd (loadConversation (example_platform 1000)
     (initial_state
        (localStorage (snd (saveConversation (example_platform 1000)
           ((initial_state Map.empty 1024)
              \<lparr>conversationHistory :=
                 JArr [mk_message (js ''user'') (JStr (js ''hi'')),
                       mk_message (js ''assistant'') (JStr (js ''hello''))]\<rparr>))))
        1024))) =
   JArr [mk_message (js ''user'') (JStr (js ''hi'')),
         mk_message (js ''assistant'') (JStr (js ''hello''))]"
proof -
  let ?P = "example_platform 1000"
  let ?h = "JArr [mk_message (js ''user'') (JStr (js ''hi'')),
                  mk_message (js ''assistant'') (JStr (js ''hello''))]"
  let ?s = "(initial_state Map.empty 1024)\<lparr>conversationHistory := ?h\<rparr>"
  have r: "fst (saveConversation ?P ?s) = Returned"
    by (simp add: saveConversation_def example_platform_def mk_message_def quote_def js_def
          storage_key_def initial_state_def)
  then have h1: "saveConversation ?P ?s = (Returned, snd (saveConversation ?P ?s))"
    by (metis prod.collapse)
  have h2: "JSON_parse ?P (JSON_stringify ?P ?h) = Inr ?h"
    by (simp add: example_platform_def example_parse_def example_corpus_def mk_message_def
          quote_def js_def)
  have h3: "JSON_stringify ?P ?h \<noteq> []"
    by (simp add: example_platform_def js_def)
  have h4: "conversationHistory ?s = ?h" by simp
  from save_then_restore_identity [OF h2 h3, of ?s "snd (saveConversation ?P ?s)" 1024] h1 h4 r
  show ?thesis by simp
qed

text \<open>\<open>addMessage\<close> in full: what it changes, and exactly when it returns.\<close>

lemma addMessage_outcome:
  assumes "conversationHistory s = JArr msgs"
    and "addMessage P role content s = (c, s')"
  shows "conversationHistory s' = JArr (msgs @ [mk_message role content]) \<and>
         console s' = console s \<and>
         (case setItem_error P (localStorage s) storage_key
                 (JSON_stringify P (JArr (msgs @ [mk_message role content]))) of
            Some e \<Rightarrow>
              c = Threw e \<and> localStorage s' = localStorage s \<and> chatMessages s' = chatMessages s
          | None \<Rightarrow>
              localStorage s' = (localStorage s)(storage_key \<mapsto>
                 JSON_stringify P (JArr (msgs @ [mk_message role content]))) \<and>
              (c = Returned \<longleftrightarrow>
                 (\<forall>m\<in>set (msgs @ [mk_message role content]).
                     \<exists>node. render_message P m = Inr node)))"
proof -
  let ?h = "JArr (msgs @ [mk_message role content])"
  let ?text = "JSON_stringify P ?h"
  from addMessage_frame [OF assms(2)] have con: "console s' = console s" by auto
  note hist = addMessage_history [OF assms]
  show ?thesis
  proof (cases "setItem_error P (localStorage s) storage_key ?text")
    case (Some e)
    with assms have "c = Threw e" and "s' = s\<lparr>conversationHistory := ?h\<rparr>"
      by (simp_all add: addMessage_array)
    with Some hist con show ?thesis by simp
  next
    case None
    let ?s0 = "s\<lparr>conversationHistory := ?h,
                  localStorage := (localStorage s)(storage_key \<mapsto> ?text)\<rparr>"
    from assms None have r: "renderMessages P ?s0 = (c, s')" by (simp add: addMessage_array)
    from renderMessages_frame [OF r]
    have st: "localStorage s' = (localStorage s)(storage_key \<mapsto> ?text)" by auto
    have "conversationHistory ?s0 = ?h" by simp
    from renderMessages_Returned_iff [OF this, of P] r
    have "c = Returned \<longleftrightarrow> (\<forall>m\<in>set (msgs @ [mk_message role content]).
                     \<exists>node. render_message P m = Inr node)"
      by simp
    with None hist con st show ?thesis by simp
  qed
qed

text \<open>
  C8 (amended). On a history that is an array, \<open>addMessage\<close> appends the message in
  memory in every case, also when the storage write or the rendering throws. It fails on
  storage errors and rendering errors only: when the storage write goes through and every
  message renders, it returns to its caller with the serialized history stored.
\<close>

theorem append_fails_on_storage_or_render_only:
  assumes "conversationHistory s = JArr msgs"
    and "addMessage P role content s = (c, s')"
  shows "conversationHistory s' = JArr (msgs @ [mk_message role content]) \<and>
         (setItem_error P (localStorage s) storage_key
            (JSON_stringify P (JArr (msgs @ [mk_message role content]))) = None \<and>
          (\<forall>m\<in>set (msgs @ [mk_message role content]). \<exists>node. render_message P m = Inr node) \<longrightarrow>
          c = Returned \<and>
          localStorage s' storage_key =
            Some (JSON_stringify P (JArr (msgs @ [mk_message role content]))))"
  using addMessage_outcome [OF assms] by (auto split: option.splits)

text \<open>An instance: the first message of a conversation, the store has room.\<close>

theorem append_fails_on_storage_or_render_only_witness:
  "conversationHistory (initial_state Map.empty 1024) = JArr [] \<and>
   fst (addMessage (example_platform 1000) (js ''user'') (JStr (js ''hi''))
          (initial_state Map.empty 1024)) = Returned \<and>
   conversationHistory (snd (addMessage (example_platform 1000) (js ''user'') (JStr (js ''hi''))
          (initial_state Map.empty 1024))) = JArr [mk_message (js ''user'') (JStr (js ''hi''))] \<and>
   localStorage (snd (addMessage (example_platform 1000) (js ''user'') (JStr (js ''hi''))
          (initial_state Map.empty 1024))) storage_key =
     Some (example_stringify (JArr [mk_message (js ''user'') (JStr (js ''hi''))]))"
proof -
  let ?P = "example_platform 1000"
  let ?s = "initial_state Map.empty 1024"
  have h1: "conversationHistory ?s = JArr []" by (simp add: initial_state_def)
  have h2: "addMessage ?P (js ''user'') (JStr (js ''hi'')) ?s =
              (fst (addMessage ?P (js ''user'') (JStr (js ''hi'')) ?s),
               snd (addMessage ?P (js ''user'') (JStr (js ''hi'')) ?s))" by simp
  have w: "setItem_error ?P (localStorage ?s) storage_key
             (JSON_stringify ?P (JArr ([] @ [mk_message (js ''user'') (JStr (js ''hi''))]))) = None"
    by (simp add: example_platform_def mk_message_def quote_def js_def storage_key_def)
  have m: "\<exists>node. render_message ?P (mk_message (js ''user'') (JStr (js ''hi''))) = Inr node"
    by (simp add: render_message_mk_message example_platform_def example_marked_def)
  have p: "JSON_stringify ?P = example_stringify" by (simp add: example_platform_def)
  from append_fails_on_storage_or_render_only [OF h1 h2] w m h1 show ?thesis
    by (simp add: p)
qed

text \<open>
  C8 as stated fails: the store refuses the write; \<open>addMessage\<close> throws the
  \<open>QuotaExceededError\<close> to its caller and nothing is logged.
\<close>

theorem append_storage_error_counterexample:
  "fst (addMessage (example_platform 0) (js ''user'') (JStr (js ''hi''))
          (initial_state Map.empty 1024)) =
     Threw (JsError (js ''QuotaExceededError'') (js ''The quota has been exceeded.'')) \<and>
   console (snd (addMessage (example_platform 0) (js ''user'') (JStr (js ''hi''))
          (initial_state Map.empty 1024))) = []"
  by (simp add: model_defs)

text \<open>
  C9. Whatever listener runs once the page is loaded, other than the click on the new-chat
  button, the history afterwards is the history before, or the history before with
  messages added at its end: no message already in it is changed, moved or removed. The
  click on the new-chat button leaves the history as it was or empties it.
\<close>

theorem history_append_only_or_cleared:
  assumes "step P ev s = (c, s')"
  shows "((\<forall>answer. ev \<noteq> NewChatClick answer) \<longrightarrow>
            conversationHistory s' = conversationHistory s \<or>
            (\<exists>old new. conversationHistory s = JArr old \<and>
                        conversationHistory s' = JArr (old @ new))) \<and>
         ((\<exists>answer. ev = NewChatClick answer) \<longrightarrow>
            conversationHistory s' = conversationHistory s \<or>
            conversationHistory s' = JArr [])"
proof (cases ev)
  case (SendClick net)
  with assms handleSend_history [of P net s c s'] show ?thesis by (auto simp: step_def)
next
  case (KeyDown key shift net)
  with assms handleSend_history [of P net s c s'] show ?thesis
    by (auto simp: step_def split: if_splits)
next
  case (DebugClick net)
  with assms handleSend_history [of P net "s\<lparr>currentAction := Debug\<rparr>" c s'] show ?thesis
    by (auto simp: step_def)
next
  case (ExplainClick net)
  with assms handleSend_history [of P net "s\<lparr>currentAction := Explain\<rparr>" c s'] show ?thesis
    by (auto simp: step_def)
next
  case (GenerateClick net)
  with assms handleSend_history [of P net "s\<lparr>currentAction := Generate\<rparr>" c s'] show ?thesis
    by (auto simp: step_def)
next
  case (NewChatClick answer)
  with assms have n: "startNewChat P answer s = (c, s')" by (simp add: step_def)
  have "conversationHistory s' = conversationHistory s \<or> conversationHistory s' = JArr []"
  proof (cases "length_gt_1 P (conversationHistory s)")
    case (Inl e)
    with n show ?thesis by (simp add: startNewChat_def)
  next
    case (Inr many)
    show ?thesis
    proof (cases "many \<and> \<not> answer")
      case True
      with n Inr show ?thesis by (auto simp: startNewChat_def)
    next
      case False
      let ?s1 = "(if many then s\<lparr>confirms := confirms s + 1\<rparr> else s)\<lparr>conversationHistory := JArr []\<rparr>"
      obtain c2 s2 where sv: "saveConversation P ?s1 = (c2, s2)" by force
      from saveConversation_frame [OF sv] have h2: "conversationHistory s2 = JArr []" by auto
      show ?thesis
      proof (cases c2)
        case (Threw e)
        with n Inr False sv have "s' = s2" by (auto simp: startNewChat_def Let_def)
        with h2 show ?thesis by simp
      next
        case Returned
        obtain c3 s3 where r: "renderMessages P s2 = (c3, s3)" by force
        from renderMessages_frame [OF r] h2 have h3: "conversationHistory s3 = JArr []" by auto
        from n Inr False sv Returned r have "s' = s3 \<or> s' = closeSidebar s3"
          by (cases c3) (auto simp: startNewChat_def Let_def)
        with h3 show ?thesis by (auto simp: closeSidebar_def split: if_splits)
      qed
    qed
  qed
  with NewChatClick show ?thesis by auto
next
  case SidebarToggleClick
  with assms have "conversationHistory s' = conversationHistory s"
    by (auto simp: step_def toggleSidebar_def)
  with SidebarToggleClick show ?thesis by simp
next
  case (DocumentClick outside)
  with assms have "conversationHistory s' = conversationHistory s"
    by (auto simp: step_def closeSidebar_def)
  with DocumentClick show ?thesis by simp
next
  case (Resize w)
  with assms have "conversationHistory s' = conversationHistory s"
    by (auto simp: step_def checkMobileView_def)
  with Resize show ?thesis by simp
next
  case (Typed v)
  with assms show ?thesis by (auto simp: step_def)
qed

text \<open>
  Two instances: a send that succeeds adds the user message and the reply at the end; a
  click on the new-chat button, confirmed, empties a history of two messages.
\<close>

theorem history_append_only_or_cleared_witness:
  "step (example_platform 1000)
     (SendClick (Response 200 (Inr (JObj [(js ''reply'', JStr (js ''hello''))]))))
     ((initial_state Map.empty 1024)
        \<lparr>conversationHistory := JArr [mk_message (js ''user'') (JStr (js ''one''))],
         chatInput := js ''hi''\<rparr>) =
   (Returned,
    snd (step (example_platform 1000)
     (SendClick (Response 200 (Inr (JObj [(js ''reply'', JStr (js ''hello''))]))))
     ((initial_state Map.empty 1024)
        \<lparr>conversationHistory := JArr [mk_message (js ''user'') (JStr (js ''one''))],
         chatInput := js ''hi''\<rparr>))) \<and>
   conversationHistory (snd (step (example_platform 1000)
     (SendClick (Response 200 (Inr (JObj [(js ''reply'', JStr (js ''hello''))]))))
     ((initial_state Map.empty 1024)
        \<lparr>conversationHistory := JArr [mk_message (js ''user'') (JStr (js ''one''))],
         chatInput := js ''hi''\<rparr>))) =
   JArr ([mk_message (js ''user'') (JStr (js ''one''))] @
         [mk_message (js ''user'') (JStr (js ''hi'')),
          mk_message (js ''assistant'') (JStr (js ''hello''))]) \<and>
   step (example_platform 1000) (NewChatClick True)
     ((initial_state Map.empty 1024)
        \<lparr>conversationHistory := JArr [mk_message (js ''user'') (JStr (js ''one'')),
                                        mk_message (js ''assistant'') (JStr (js ''two''))]\<rparr>) =
   (Returned,
    snd (step (example_platform 1000) (NewChatClick True)
     ((initial_state Map.empty 1024)
        \<lparr>conversationHistory := JArr [mk_message (js ''user'') (JStr (js ''one'')),
                                        mk_message (js ''assistant'') (JStr (js ''two''))]\<rparr>))) \<and>
   conversationHistory (snd (step (example_platform 1000) (NewChatClick True)
     ((initial_state Map.empty 1024)
        \<lparr>conversationHistory := JArr [mk_message (js ''user'') (JStr (js ''one'')),
                                        mk_message (js ''assistant'') (JStr (js ''two''))]\<rparr>))) =
   JArr []"
proof -
  let ?P = "example_platform 1000"
  let ?ev = "SendClick (Response 200 (Inr (JObj [(js ''reply'', JStr (js ''hello''))])))"
  let ?s = "(initial_state Map.empty 1024)
        \<lparr>conversationHistory := JArr [mk_message (js ''user'') (JStr (js ''one''))],
         chatInput := js ''hi''\<rparr>"
  let ?t = "(initial_state Map.empty 1024)
        \<lparr>conversationHistory := JArr [mk_message (js ''user'') (JStr (js ''one'')),
                                        mk_message (js ''assistant'') (JStr (js ''two''))]\<rparr>"
  have r: "fst (step ?P ?ev ?s) = Returned" by (simp add: model_defs)
  then have h: "step ?P ?ev ?s = (Returned, snd (step ?P ?ev ?s))" by (metis prod.collapse)
  have v: "conversationHistory (snd (step ?P ?ev ?s)) =
     JArr ([mk_message (js ''user'') (JStr (js ''one''))] @
         [mk_message (js ''user'') (JStr (js ''hi'')),
          mk_message (js ''assistant'') (JStr (js ''hello''))])"
    by (simp add: model_defs)
  have r2: "fst (step ?P (NewChatClick True) ?t) = Returned" by (simp add: model_defs)
  then have h2: "step ?P (NewChatClick True) ?t = (Returned, snd (step ?P (NewChatClick True) ?t))"
    by (metis prod.collapse)
  have n: "conversationHistory (snd (step ?P (NewChatClick True) ?t)) \<noteq> conversationHistory ?t"
    by (simp add: model_defs)
  from history_append_only_or_cleared [OF h2] n
  have c: "conversationHistory (snd (step ?P (NewChatClick True) ?t)) = JArr []" by blast
  from history_append_only_or_cleared [OF h] h v h2 c show ?thesis by simp
qed

text \<open>
  C10 (amended). A send whose input is empty or made of white space only returns at once
  and changes nothing: no message, no write to the store, no request, and the pending
  action is not reset. So a mode button pressed over such an input only selects its mode;
  and a send with an input that is not blank, started in the state that click has left,
  posts to that mode's endpoint once its user message is appended.
\<close>

theorem blank_send_is_noop:
  assumes "\<forall>c\<in>set (chatInput s). is_js_whitespace c"
  shows "handleSend P net s = (Returned, s) \<and>
         step P (SendClick net) s = (Returned, s) \<and>
         step P (DebugClick net) s = (Returned, s\<lparr>currentAction := Debug\<rparr>) \<and>
         step P (ExplainClick net) s = (Returned, s\<lparr>currentAction := Explain\<rparr>) \<and>
         step P (GenerateClick net) s = (Returned, s\<lparr>currentAction := Generate\<rparr>) \<and>
         (\<forall>t net' s1.
            trim t \<noteq> [] \<and>
            addMessage P (js ''user'') (JStr (trim t))
              (s\<lparr>currentAction := Debug, chatInput := t\<rparr>) = (Returned, s1) \<longrightarrow>
            requests (snd (handleSend P net' (s\<lparr>currentAction := Debug, chatInput := t\<rparr>))) =
              requests s @ [\<lparr>url = API_BASE @ js ''/debug'',
                 body = JSON_stringify P (JObj [(js ''code'', JStr (trim t))])\<rparr>]) \<and>
         (\<forall>t net' s1.
            trim t \<noteq> [] \<and>
            addMessage P (js ''user'') (JStr (trim t))
              (s\<lparr>currentAction := Explain, chatInput := t\<rparr>) = (Returned, s1) \<longrightarrow>
            requests (snd (handleSend P net' (s\<lparr>currentAction := Explain, chatInput := t\<rparr>))) =
              requests s @ [\<lparr>url = API_BASE @ js ''/explain'',
                 body = JSON_stringify P (JObj [(js ''code'', JStr (trim t))])\<rparr>]) \<and>
         (\<forall>t net' s1.
            trim t \<noteq> [] \<and>
            addMessage P (js ''user'') (JStr (trim t))
              (s\<lparr>currentAction := Generate, chatInput := t\<rparr>) = (Returned, s1) \<longrightarrow>
            requests (snd (handleSend P net' (s\<lparr>currentAction := Generate, chatInput := t\<rparr>))) =
              requests s @ [\<lparr>url = API_BASE @ js ''/generate'',
                 body = JSON_stringify P (JObj [(js ''spec'', JStr (trim t))])\<rparr>])"
proof -
  from assms have blank: "trim (chatInput s) = []" by (simp add: trim_empty_iff)
  have a: "handleSend P net s = (Returned, s)"
    using blank by (rule handleSend_blank)
  have b: "\<And>a. handleSend P net (s\<lparr>currentAction := a\<rparr>) = (Returned, s\<lparr>currentAction := a\<rparr>)"
    using blank by (simp add: handleSend_blank)
  have d: "\<And>t net' s1. trim t \<noteq> [] \<Longrightarrow>
      addMessage P (js ''user'') (JStr (trim t))
        (s\<lparr>currentAction := Debug, chatInput := t\<rparr>) = (Returned, s1) \<Longrightarrow>
      requests (snd (handleSend P net' (s\<lparr>currentAction := Debug, chatInput := t\<rparr>))) =
        requests s @ [\<lparr>url = API_BASE @ js ''/debug'',
           body = JSON_stringify P (JObj [(js ''code'', JStr (trim t))])\<rparr>]"
    using send_in_debug_mode [of "s\<lparr>currentAction := Debug, chatInput := _\<rparr>" P] by simp
  have e: "\<And>t net' s1. trim t \<noteq> [] \<Longrightarrow>
      addMessage P (js ''user'') (JStr (trim t))
        (s\<lparr>currentAction := Explain, chatInput := t\<rparr>) = (Returned, s1) \<Longrightarrow>
      requests (snd (handleSend P net' (s\<lparr>currentAction := Explain, chatInput := t\<rparr>))) =
        requests s @ [\<lparr>url = API_BASE @ js ''/explain'',
           body = JSON_stringify P (JObj [(js ''code'', JStr (trim t))])\<rparr>]"
    using send_in_explain_mode [of "s\<lparr>currentAction := Explain, chatInput := _\<rparr>" P] by simp
  have g: "\<And>t net' s1. trim t \<noteq> [] \<Longrightarrow>
      addMessage P (js ''user'') (JStr (trim t))
        (s\<lparr>currentAction := Generate, chatInput := t\<rparr>) = (Returned, s1) \<Longrightarrow>
      requests (snd (handleSend P net' (s\<lparr>currentAction := Generate, chatInput := t\<rparr>))) =
        requests s @ [\<lparr>url = API_BASE @ js ''/generate'',
           body = JSON_stringify P (JObj [(js ''spec'', JStr (trim t))])\<rparr>]"
    using send_in_generate_mode [of "s\<lparr>currentAction := Generate, chatInput := _\<rparr>" P] by simp
  from a b d e g show ?thesis by (simp add: step_def)
qed

text \<open>
  An instance: the Explain button over an input of two spaces; then the input \<open>x\<close> is
  sent and goes to \<open>/explain\<close>.
\<close>

theorem blank_send_is_noop_witness:
  "list_all is_js_whitespace
     (chatInput ((initial_state Map.empty 1024)\<lparr>chatInput := js ''  ''\<rparr>)) \<and>
   step (example_platform 1000)
     (ExplainClick (Rejected (JsError (js ''TypeError'') (js ''Failed to fetch''))))
     ((initial_state Map.empty 1024)\<lparr>chatInput := js ''  ''\<rparr>) =
   (Returned, (initial_state Map.empty 1024)\<lparr>chatInput := js ''  '', currentAction := Explain\<rparr>) \<and>
   requests (snd (handleSend (example_platform 1000)
      (Response 200 (Inr (JObj [(js ''reply'', JStr (js ''ok''))])))
      ((initial_state Map.empty 1024)\<lparr>chatInput := js ''x'', currentAction := Explain\<rparr>))) =
     [\<lparr>url = API_BASE @ js ''/explain'',
       body = example_stringify (JObj [(js ''code'', JStr (js ''x''))])\<rparr>]"
proof -
  let ?P = "example_platform 1000"
  let ?s = "(initial_state Map.empty 1024)\<lparr>chatInput := js ''  ''\<rparr>"
  let ?s2 = "?s\<lparr>currentAction := Explain, chatInput := js ''x''\<rparr>"
  have h: "\<forall>c\<in>set (chatInput ?s). is_js_whitespace c"
    by (simp add: is_js_whitespace_def js_def)
  have t: "trim (js ''x'') = js ''x''" by (simp add: trim_def is_js_whitespace_def js_def)
  have "fst (addMessage ?P (js ''user'') (JStr (js ''x'')) ?s2) = Returned"
    by (simp add: model_defs)
  then have a: "addMessage ?P (js ''user'') (JStr (trim (js ''x''))) ?s2 =
                  (Returned, snd (addMessage ?P (js ''user'') (JStr (js ''x'')) ?s2))"
    unfolding t by (metis prod.collapse)
  have n: "trim (js ''x'') \<noteq> []" unfolding t by (simp add: js_def)
  have p: "JSON_stringify ?P = example_stringify" by (simp add: example_platform_def)
  note inst = blank_send_is_noop [OF h, of ?P
         "Rejected (JsError (js ''TypeError'') (js ''Failed to fetch''))"]
  from inst have
    "step ?P (ExplainClick (Rejected (JsError (js ''TypeError'') (js ''Failed to fetch'')))) ?s =
       (Returned, ?s\<lparr>currentAction := Explain\<rparr>)"
    by simp
  moreover from inst have
    "\<forall>t net' s1. trim t \<noteq> [] \<and>
        addMessage ?P (js ''user'') (JStr (trim t))
          (?s\<lparr>currentAction := Explain, chatInput := t\<rparr>) = (Returned, s1) \<longrightarrow>
        requests (snd (handleSend ?P net' (?s\<lparr>currentAction := Explain, chatInput := t\<rparr>))) =
          requests ?s @ [\<lparr>url = API_BASE @ js ''/explain'',
             body = JSON_stringify ?P (JObj [(js ''code'', JStr (trim t))])\<rparr>]"
    by simp
  with n a have
    "requests (snd (handleSend ?P (Response 200 (Inr (JObj [(js ''reply'', JStr (js ''ok''))])))
        ?s2)) =
       requests ?s @ [\<lparr>url = API_BASE @ js ''/explain'',
             body = JSON_stringify ?P (JObj [(js ''code'', JStr (trim (js ''x'')))])\<rparr>]"
    by blast
  ultimately show ?thesis using h by (simp add: list_all_iff t p initial_state_def)
qed

text \<open>
  C10 as stated fails in its last clause, in two ways. With a store that refuses every
  write, Explain is clicked over a blank input and the mode is selected, but the next
  send, with the input \<open>x\<close>, posts nothing. With a store that has room, Explain is
  clicked while a send is in flight, over the input that send has emptied: the mode is
  selected, the answer arrives and the first send ends by resetting the mode, and the
  next send, with the input \<open>x\<close>, goes to \<open>/chat\<close>.
\<close>

theorem mode_not_applied_counterexample:
  "list_all is_js_whitespace (js ''  '') \<and>
   currentAction (snd (step (example_platform 0)
      (ExplainClick (Response 200 (Inr (JObj [(js ''reply'', JStr (js ''ok''))]))))
      ((initial_state Map.empty 1024)\<lparr>chatInput := js ''  ''\<rparr>))) = Explain \<and>
   requests (snd (step (example_platform 0)
      (SendClick (Response 200 (Inr (JObj [(js ''reply'', JStr (js ''ok''))]))))
      (snd (step (example_platform 0) (Typed (js ''x''))
        (snd (step (example_platform 0)
          (ExplainClick (Response 200 (Inr (JObj [(js ''reply'', JStr (js ''ok''))]))))
          ((initial_state Map.empty 1024)\<lparr>chatInput := js ''  ''\<rparr>))))))) = [] \<and>
   fst (handleSend_begin (example_platform 1000)
          (Response 200 (Inr (JObj [(js ''reply'', JStr (js ''ok''))])))
          ((initial_state Map.empty 1024)\<lparr>chatInput := js ''a''\<rparr>)) =
     Inr (Inr (JStr (js ''ok''))) \<and>
   chatInput overlap_in_flight = [] \<and>
   currentAction overlap_mode_clicked = Explain \<and>
   requests overlap_mode_clicked = requests overlap_in_flight \<and>
   conversationHistory overlap_mode_clicked = conversationHistory overlap_in_flight \<and>
   currentAction overlap_answered = Chat \<and>
   requests overlap_next_send =
     [\<lparr>url = API_BASE @ js ''/chat'',
       body = example_stringify
         (JObj [(js ''prompt'', JStr (js ''a'')), (js ''history'', JArr [])])\<rparr>,
      \<lparr>url = API_BASE @ js ''/chat'',
       body = example_stringify
         (JObj [(js ''prompt'', JStr (js ''x'')),
                (js ''history'',
                 JArr [mk_message (js ''user'') (JStr (js ''a'')),
                       mk_message (js ''assistant'') (JStr (js ''ok''))])])\<rparr>]"
  by (simp add: model_defs)

end
